theory Spec2Isabelle
  imports Main
begin

section \<open>Common values: errors, strings, addresses\<close>

text \<open>
  The bundler is TypeScript. A thrown exception is modelled as a value: \<open>RpcError code\<close> is
  the \<^verbatim>\<open>RpcError\<close> class of \<^verbatim>\<open>utils/Utils.ts\<close> carrying one of the
  \<^verbatim>\<open>ValidationErrors\<close> codes (messages are dropped), \<open>JsError msg\<close> is any other
  JavaScript \<^verbatim>\<open>Error\<close>. A function that can throw after it has mutated an object returns
  the error together with the state it leaves behind.
\<close>

datatype ValidationErrors =
    InvalidFields
  | SimulateValidation
  | SimulatePaymasterValidation
  | OpcodeValidation
  | NotInTimeRange
  | Reputation
  | InsufficientStake
  | UnsupportedSignatureAggregator
  | InvalidSignature
  | UserOperationReverted

datatype error = RpcError ValidationErrors | JsError string

text \<open>\<^verbatim>\<open>requireCond(cond, msg, code)\<close>: throws \<^verbatim>\<open>RpcError\<close> when the condition is false.\<close>

definition requireCond :: "bool \<Rightarrow> ValidationErrors \<Rightarrow> error option" where
  "requireCond cond code = (if \<not> cond then Some (RpcError code) else None)"

text \<open>Sequencing of statements that may throw: the first error wins.\<close>

definition andThen :: "error option \<Rightarrow> error option \<Rightarrow> error option" where
  "andThen a b = (case a of Some e \<Rightarrow> Some e | None \<Rightarrow> b)"

text \<open>
  \<^verbatim>\<open>String.prototype.toLowerCase\<close> on the ASCII strings the bundler handles (hex strings and
  addresses): the letters A to Z are mapped to a to z, every other character is kept.
\<close>

definition char_lower :: "char \<Rightarrow> char" where
  "char_lower c =
     (case map_of (zip ''ABCDEFGHIJKLMNOPQRSTUVWXYZ'' ''abcdefghijklmnopqrstuvwxyz'') c of
        Some l \<Rightarrow> l
      | None \<Rightarrow> c)"

definition toLowerCase :: "string \<Rightarrow> string" where
  "toLowerCase s = map char_lower s"

text \<open>
  \<^verbatim>\<open>getAddr(data)\<close> of \<^verbatim>\<open>utils/Utils.ts\<close>. The byte fields of a UserOperation travel
  as hex strings (\<^verbatim>\<open>0x\<close> followed by an even number of hex digits), on which the ethers
  function \<^verbatim>\<open>hexlify\<close> is lower-casing. A missing argument is \<open>None\<close>.
\<close>

definition hexlify :: "string \<Rightarrow> string" where
  "hexlify data = toLowerCase data"

definition getAddr :: "string option \<Rightarrow> string option" where
  "getAddr data =
     (case data of
        None \<Rightarrow> None
      | Some d \<Rightarrow>
          (let str = hexlify d in
           if length str \<ge> 42 then Some (take 42 str) else None))"

section \<open>JavaScript numbers that are not integers\<close>

text \<open>
  Counters, gas amounts and timestamps are integers far below \<open>2^53\<close>, where IEEE-754 double
  arithmetic on them is exact; they are modelled by \<open>nat\<close> and \<open>int\<close>. Two places of the
  code leave the integers: the product \<^verbatim>\<open>old * 1.1\<close> of the replacement rule and the
  quotient \<^verbatim>\<open>opsIncluded / opsSeen\<close> of the mempool quota. For these a non-negative
  finite double is the pair \<open>(m, e)\<close> of a significand \<open>m < 2^53\<close> and an exponent, with
  value \<open>m * 2^e\<close>, and every operation rounds its exact result to the nearest double,
  ties to the even significand (the only rounding mode of JavaScript). The values met here
  are far from the subnormal and the overflow range.
\<close>

type_synonym double = "nat \<times> int"

fun bitlen :: "nat \<Rightarrow> nat" where
  "bitlen n = (if n = 0 then 0 else Suc (bitlen (n div 2)))"

declare bitlen.simps [simp del]

text \<open>Rounding the integer significand \<open>p\<close> (at exponent \<open>e\<close>) to 53 bits.\<close>

definition round53 :: "nat \<Rightarrow> int \<Rightarrow> double" where
  "round53 p e =
     (let k = bitlen p in
      if k \<le> 53 then (p, e)
      else
        (let s = k - 53;
             q = p div 2 ^ s;
             r = p mod 2 ^ s;
             q' = (if 2 ^ s < 2 * r \<or> (2 * r = 2 ^ s \<and> odd q) then q + 1 else q)
         in (q', e + int s)))"

text \<open>The double nearest to the quotient \<open>a / b\<close> of two positive integers.\<close>

definition double_of_ratio :: "nat \<Rightarrow> nat \<Rightarrow> double" where
  "double_of_ratio a b =
     (if a = 0 \<or> b = 0 then (0, 0)
      else
        (let t = int (bitlen a) - int (bitlen b) - 54;
             num = (if t < 0 then a * 2 ^ nat (- t) else a);
             den = (if t < 0 then b else b * 2 ^ nat t);
             q = num div den;
             sticky = (if num mod den = 0 then 0 else 1)
         in round53 (2 * q + sticky) (t - 1)))"

definition double_of_nat :: "nat \<Rightarrow> double" where
  "double_of_nat n = round53 n 0"

definition double_mul :: "double \<Rightarrow> double \<Rightarrow> double" where
  "double_mul x y = round53 (fst x * fst y) (snd x + snd y)"

text \<open>Comparison \<^verbatim>\<open>x >= y\<close> of two doubles, by bringing both to the smaller exponent.\<close>

definition double_ge :: "double \<Rightarrow> double \<Rightarrow> bool" where
  "double_ge x y =
     (let e = min (snd x) (snd y) in
      fst x * 2 ^ nat (snd x - e) \<ge> fst y * 2 ^ nat (snd y - e))"

text \<open>\<^verbatim>\<open>Math.floor\<close> of a non-negative double.\<close>

definition double_floor :: "double \<Rightarrow> nat" where
  "double_floor x = (if 0 \<le> snd x then fst x * 2 ^ nat (snd x) else fst x div 2 ^ nat (- snd x))"

text \<open>The literal \<^verbatim>\<open>1.1\<close> denotes the double nearest to \<open>11/10\<close>.\<close>

definition js_1_1 :: double where
  "js_1_1 = double_of_ratio 11 10"


section \<open>Reputation manager (\<^verbatim>\<open>modules/ReputationManager.ts\<close>)\<close>

datatype ReputationStatus = OK | THROTTLED | BANNED

record ReputationParams =
  minInclusionDenominator :: nat
  throttlingSlack :: nat
  banSlack :: nat

definition BundlerReputationParams :: ReputationParams where
  "BundlerReputationParams =
     \<lparr>minInclusionDenominator = 10, throttlingSlack = 10, banSlack = 50\<rparr>"

definition NonBundlerReputationParams :: ReputationParams where
  "NonBundlerReputationParams =
     \<lparr>minInclusionDenominator = 100, throttlingSlack = 10, banSlack = 10\<rparr>"

record ReputationEntry =
  address :: string
  opsSeen :: nat
  opsIncluded :: nat
  status :: "ReputationStatus option"

record StakeInfo =
  addr :: string
  stake :: nat
  unstakeDelaySec :: nat

text \<open>
  The fields of the class. \<open>entries\<close> is the object used as a dictionary from the
  lower-cased address to its entry; each key owns its own entry object.
\<close>

record ReputationManager =
  params :: ReputationParams
  minStake :: nat
  minUnstakeDelay :: nat
  entries :: "string \<rightharpoonup> ReputationEntry"
  blackList :: "string set"
  whitelist :: "string set"

text \<open>
  \<^verbatim>\<open>hourlyCron\<close>: for every key, first \<^verbatim>\<open>opsSeen\<close> is overwritten, then
  \<^verbatim>\<open>opsIncluded\<close> is computed from the field \<^verbatim>\<open>opsSeen\<close> just written (line 65
  reads \<^verbatim>\<open>entry.opsSeen\<close>), then the entry is deleted when both are zero.
  \<^verbatim>\<open>Math.floor((n * 23) / 24)\<close> on an integer counter is the integer quotient.
\<close>

definition hourlyCron_entry :: "ReputationEntry \<Rightarrow> ReputationEntry option" where
  "hourlyCron_entry entry =
     (let entry1 = entry\<lparr>opsSeen := (opsSeen entry * 23) div 24\<rparr>;
          entry2 = entry1\<lparr>opsIncluded := (opsSeen entry1 * 23) div 24\<rparr>
      in if opsIncluded entry2 = 0 \<and> opsSeen entry2 = 0 then None else Some entry2)"

definition hourlyCron :: "ReputationManager \<Rightarrow> ReputationManager" where
  "hourlyCron rm =
     rm\<lparr>entries := (\<lambda>key. case entries rm key of
                               None \<Rightarrow> None
                             | Some entry \<Rightarrow> hourlyCron_entry entry)\<rparr>"

text \<open>
  \<^verbatim>\<open>_getOrCreate(addr)\<close> returns a reference to the entry stored under the lower-cased
  address, creating it first when absent. The reference is modelled by the key; a write
  through the reference is \<open>modifyEntry\<close> at that key.
\<close>

definition getOrCreate :: "string \<Rightarrow> ReputationManager \<Rightarrow> string \<times> ReputationManager" where
  "getOrCreate addr0 rm =
     (let key = toLowerCase addr0 in
      case entries rm key of
        None \<Rightarrow>
          (key, rm\<lparr>entries := (entries rm)(key \<mapsto>
                    \<lparr>address = key, opsSeen = 0, opsIncluded = 0, status = None\<rparr>)\<rparr>)
      | Some entry \<Rightarrow> (key, rm))"

definition modifyEntry ::
  "string \<Rightarrow> (ReputationEntry \<Rightarrow> ReputationEntry) \<Rightarrow> ReputationManager \<Rightarrow> ReputationManager" where
  "modifyEntry key f rm =
     (case entries rm key of
        None \<Rightarrow> rm
      | Some entry \<Rightarrow> rm\<lparr>entries := (entries rm)(key \<mapsto> f entry)\<rparr>)"

definition updateSeenStatus :: "string option \<Rightarrow> ReputationManager \<Rightarrow> ReputationManager" where
  "updateSeenStatus a rm =
     (case a of
        None \<Rightarrow> rm
      | Some ad \<Rightarrow>
          (let (key, rm') = getOrCreate ad rm in
           modifyEntry key (\<lambda>entry. entry\<lparr>opsSeen := opsSeen entry + 1\<rparr>) rm'))"

definition updateIncludedStatus :: "string \<Rightarrow> ReputationManager \<Rightarrow> ReputationManager" where
  "updateIncludedStatus ad rm =
     (let (key, rm') = getOrCreate ad rm in
      modifyEntry key (\<lambda>entry. entry\<lparr>opsIncluded := opsIncluded entry + 1\<rparr>) rm')"

definition isWhitelisted :: "ReputationManager \<Rightarrow> string \<Rightarrow> bool" where
  "isWhitelisted rm ad = (ad \<in> whitelist rm)"

text \<open>
  \<^verbatim>\<open>getStatus\<close>. \<^verbatim>\<open>Math.floor(opsSeen / minInclusionDenominator)\<close> is the integer
  quotient; with a denominator of 0 the JavaScript quotient is \<^verbatim>\<open>Infinity\<close> or \<^verbatim>\<open>NaN\<close>,
  both comparisons are false and the status is \<^verbatim>\<open>BANNED\<close>.
\<close>

definition getStatus :: "ReputationManager \<Rightarrow> string option \<Rightarrow> ReputationStatus" where
  "getStatus rm a =
     (case map_option toLowerCase a of
        None \<Rightarrow> OK
      | Some ad \<Rightarrow>
          if ad \<in> whitelist rm then OK
          else if ad \<in> blackList rm then BANNED
          else
            (case entries rm ad of
               None \<Rightarrow> OK
             | Some entry \<Rightarrow>
                 if minInclusionDenominator (params rm) = 0 then BANNED
                 else
                   (let minExpectedIncluded = opsSeen entry div minInclusionDenominator (params rm) in
                    if minExpectedIncluded \<le> opsIncluded entry + throttlingSlack (params rm) then OK
                    else if minExpectedIncluded \<le> opsIncluded entry + banSlack (params rm)
                    then THROTTLED
                    else BANNED)))"

definition crashedHandleOps :: "string option \<Rightarrow> ReputationManager \<Rightarrow> ReputationManager" where
  "crashedHandleOps a rm =
     (case a of
        None \<Rightarrow> rm
      | Some ad \<Rightarrow>
          (let (key, rm') = getOrCreate ad rm in
           modifyEntry key
             (\<lambda>entry. (entry\<lparr>opsSeen := opsSeen entry + 10000\<rparr>)\<lparr>opsIncluded := 0\<rparr>) rm'))"

definition rm_clearState :: "ReputationManager \<Rightarrow> ReputationManager" where
  "rm_clearState rm = rm\<lparr>entries := Map.empty\<rparr>"

definition checkBanned :: "ReputationManager \<Rightarrow> StakeInfo \<Rightarrow> error option" where
  "checkBanned rm info = requireCond (getStatus rm (Some (addr info)) \<noteq> BANNED) Reputation"

definition checkThrottled :: "ReputationManager \<Rightarrow> StakeInfo \<Rightarrow> error option" where
  "checkThrottled rm info = requireCond (getStatus rm (Some (addr info)) \<noteq> THROTTLED) Reputation"

definition checkStake :: "ReputationManager \<Rightarrow> StakeInfo option \<Rightarrow> error option" where
  "checkStake rm i =
     (case i of
        None \<Rightarrow> None
      | Some info \<Rightarrow>
          if isWhitelisted rm (addr info) then None
          else
            andThen (requireCond (getStatus rm (Some (addr info)) \<noteq> BANNED) Reputation)
           (andThen (requireCond (stake info \<ge> minStake rm) InsufficientStake)
                    (requireCond (unstakeDelaySec info \<ge> minUnstakeDelay rm) InsufficientStake)))"

text \<open>
  \<^verbatim>\<open>calculateMaxAllowedMempoolOpsUnstaked\<close>: the inclusion rate is the double quotient of
  the two counters (replaced by 0 when \<^verbatim>\<open>opsSeen\<close> is 0), multiplied by 10 and floored.
\<close>

definition calculateMaxAllowedMempoolOpsUnstaked :: "ReputationManager \<Rightarrow> string \<Rightarrow> nat" where
  "calculateMaxAllowedMempoolOpsUnstaked rm entity0 =
     (let entity = toLowerCase entity0 in
      case entries rm entity of
        None \<Rightarrow> 10
      | Some entry \<Rightarrow>
          (let inclusionRate =
                 (if opsSeen entry = 0 then double_of_nat 0
                  else double_of_ratio (opsIncluded entry) (opsSeen entry))
           in 10 + double_floor (double_mul inclusionRate (double_of_nat 10))
                 + min (opsIncluded entry) 10000))"

section \<open>Mempool manager (\<^verbatim>\<open>modules/MempoolManager.ts\<close>)\<close>

text \<open>
  \<^verbatim>\<open>sender\<close> and \<^verbatim>\<open>nonce\<close> are compared with \<^verbatim>\<open>===\<close> as they arrived, so both are
  kept as strings; the amounts are the values of their \<^verbatim>\<open>BigNumberish\<close> fields.
\<close>

record UserOperation =
  sender :: string
  nonce :: string
  initCode :: string
  callData :: string
  callGasLimit :: nat
  verificationGasLimit :: nat
  preVerificationGas :: nat
  maxFeePerGas :: nat
  maxPriorityFeePerGas :: nat
  paymasterAndData :: string
  signature :: string

record ReferencedCodeHashes =
  addresses :: "string list"
  hash :: string

record MempoolEntry =
  userOp :: UserOperation
  userOpHash :: string
  prefund :: nat
  referencedContracts :: ReferencedCodeHashes
  aggregator :: "string option"

text \<open>
  The two private fields of the class: the array \<^verbatim>\<open>mempool\<close> and the dictionary
  \<^verbatim>\<open>_entryCount\<close> (here \<open>entryCountMap\<close>). The reputation manager the class refers
  to is passed to the methods that use it.
\<close>

record MempoolManager =
  mempool :: "MempoolEntry list"
  entryCountMap :: "string \<rightharpoonup> int"

definition MAX_MEMPOOL_USEROPS_PER_SENDER :: nat where
  "MAX_MEMPOOL_USEROPS_PER_SENDER = 4"

definition THROTTLED_ENTITY_MEMPOOL_COUNT :: int where
  "THROTTLED_ENTITY_MEMPOOL_COUNT = 4"

definition entryCount :: "MempoolManager \<Rightarrow> string \<Rightarrow> int option" where
  "entryCount mm a = entryCountMap mm (toLowerCase a)"

text \<open>\<^verbatim>\<open>x ?? 0\<close> on a count.\<close>

definition orZero :: "int option \<Rightarrow> int" where
  "orZero c = (case c of None \<Rightarrow> 0 | Some n \<Rightarrow> n)"

definition incrementEntryCount :: "string option \<Rightarrow> MempoolManager \<Rightarrow> MempoolManager" where
  "incrementEntryCount a mm =
     (case map_option toLowerCase a of
        None \<Rightarrow> mm
      | Some ad \<Rightarrow> mm\<lparr>entryCountMap := (entryCountMap mm)(ad \<mapsto> orZero (entryCountMap mm ad) + 1)\<rparr>)"

definition decrementEntryCount :: "string option \<Rightarrow> MempoolManager \<Rightarrow> MempoolManager" where
  "decrementEntryCount a mm =
     (case map_option toLowerCase a of
        None \<Rightarrow> mm
      | Some ad \<Rightarrow>
          if entryCountMap mm ad = None then mm
          else
            (let m1 = (entryCountMap mm)(ad \<mapsto> orZero (entryCountMap mm ad) - 1) in
             if orZero (m1 ad) \<le> 0 then mm\<lparr>entryCountMap := m1(ad := None)\<rparr>
             else mm\<lparr>entryCountMap := m1\<rparr>))"

definition count :: "MempoolManager \<Rightarrow> nat" where
  "count mm = length (mempool mm)"

text \<open>The two linear searches; the result is the first matching index, or \<open>-1\<close>.\<close>

fun findBySenderNonce_from :: "MempoolEntry list \<Rightarrow> int \<Rightarrow> string \<Rightarrow> string \<Rightarrow> int" where
  "findBySenderNonce_from [] i s n = - 1"
| "findBySenderNonce_from (curOp # rest) i s n =
     (if sender (userOp curOp) = s \<and> nonce (userOp curOp) = n then i
      else findBySenderNonce_from rest (i + 1) s n)"

definition findBySenderNonce :: "MempoolManager \<Rightarrow> string \<Rightarrow> string \<Rightarrow> int" where
  "findBySenderNonce mm s n = findBySenderNonce_from (mempool mm) 0 s n"

fun findByHash_from :: "MempoolEntry list \<Rightarrow> int \<Rightarrow> string \<Rightarrow> int" where
  "findByHash_from [] i h = - 1"
| "findByHash_from (curOp # rest) i h =
     (if userOpHash curOp = h then i else findByHash_from rest (i + 1) h)"

definition findByHash :: "MempoolManager \<Rightarrow> string \<Rightarrow> int" where
  "findByHash mm h = findByHash_from (mempool mm) 0 h"

text \<open>
  \<^verbatim>\<open>BigNumber.from(x).toNumber()\<close> of ethers v5 throws a numeric-fault error when the value
  does not fit 53 bits.
\<close>

definition toNumber :: "nat \<Rightarrow> error + nat" where
  "toNumber n = (if n < 2 ^ 53 then Inr n else Inl (JsError ''overflow''))"

text \<open>
  \<^verbatim>\<open>checkReplaceUserOp\<close>: the four conversions, then the two comparisons
  \<^verbatim>\<open>new >= old * 1.1\<close>, each a double product compared with the new fee.
\<close>

definition checkReplaceUserOp :: "MempoolEntry \<Rightarrow> MempoolEntry \<Rightarrow> error option" where
  "checkReplaceUserOp oldEntry entry =
     (case toNumber (maxPriorityFeePerGas (userOp oldEntry)) of
        Inl e \<Rightarrow> Some e
      | Inr oldMaxPriorityFeePerGas \<Rightarrow>
     (case toNumber (maxPriorityFeePerGas (userOp entry)) of
        Inl e \<Rightarrow> Some e
      | Inr newMaxPriorityFeePerGas \<Rightarrow>
     (case toNumber (maxFeePerGas (userOp oldEntry)) of
        Inl e \<Rightarrow> Some e
      | Inr oldMaxFeePerGas \<Rightarrow>
     (case toNumber (maxFeePerGas (userOp entry)) of
        Inl e \<Rightarrow> Some e
      | Inr newMaxFeePerGas \<Rightarrow>
          andThen
            (requireCond
               (double_ge (double_of_nat newMaxPriorityFeePerGas)
                          (double_mul (double_of_nat oldMaxPriorityFeePerGas) js_1_1))
               InvalidFields)
            (requireCond
               (double_ge (double_of_nat newMaxFeePerGas)
                          (double_mul (double_of_nat oldMaxFeePerGas) js_1_1))
               InvalidFields)))))"

definition checkReputationStatus ::
  "ReputationManager \<Rightarrow> MempoolManager \<Rightarrow> StakeInfo \<Rightarrow> nat option \<Rightarrow> error option" where
  "checkReputationStatus rm mm stakeInfo maxTxMempoolAllowedOverride =
     (let maxTxMempoolAllowedEntity =
            (case maxTxMempoolAllowedOverride of
               Some v \<Rightarrow> v
             | None \<Rightarrow> calculateMaxAllowedMempoolOpsUnstaked rm (addr stakeInfo))
      in andThen (checkBanned rm stakeInfo)
           (let ec = orZero (entryCount mm (addr stakeInfo)) in
            andThen (if ec > THROTTLED_ENTITY_MEMPOOL_COUNT then checkThrottled rm stakeInfo else None)
                    (if ec > int maxTxMempoolAllowedEntity then checkStake rm (Some stakeInfo)
                     else None)))"

definition checkReputation ::
  "ReputationManager \<Rightarrow> MempoolManager \<Rightarrow> StakeInfo \<Rightarrow> StakeInfo option \<Rightarrow> StakeInfo option \<Rightarrow>
   StakeInfo option \<Rightarrow> error option" where
  "checkReputation rm mm senderInfo paymasterInfo factoryInfo aggregatorInfo =
     andThen (checkReputationStatus rm mm senderInfo (Some MAX_MEMPOOL_USEROPS_PER_SENDER))
    (andThen (case paymasterInfo of None \<Rightarrow> None | Some i \<Rightarrow> checkReputationStatus rm mm i None)
    (andThen (case factoryInfo of None \<Rightarrow> None | Some i \<Rightarrow> checkReputationStatus rm mm i None)
             (case aggregatorInfo of None \<Rightarrow> None | Some i \<Rightarrow> checkReputationStatus rm mm i None)))"

definition getKnownSenders :: "MempoolManager \<Rightarrow> string list" where
  "getKnownSenders mm = map (\<lambda>it. toLowerCase (sender (userOp it))) (mempool mm)"

definition getKnownEntities :: "MempoolManager \<Rightarrow> string list" where
  "getKnownEntities mm =
     (let res = map (\<lambda>it. getAddr (Some (paymasterAndData (userOp it)))) (mempool mm)
              @ map (\<lambda>it. getAddr (Some (initCode (userOp it)))) (mempool mm)
      in map (\<lambda>it. toLowerCase (the it)) (filter (\<lambda>it. it \<noteq> None) res))"

definition checkMultipleRolesViolation :: "MempoolManager \<Rightarrow> UserOperation \<Rightarrow> error option" where
  "checkMultipleRolesViolation mm op =
     (let knownEntities = getKnownEntities mm in
      andThen (requireCond (toLowerCase (sender op) \<notin> set knownEntities) OpcodeValidation)
        (let knownSenders = getKnownSenders mm;
             paymaster = map_option toLowerCase (getAddr (Some (paymasterAndData op)));
             factory = map_option toLowerCase (getAddr (Some (initCode op)));
             isPaymasterSenderViolation =
               ((case map_option toLowerCase paymaster of None \<Rightarrow> [] | Some p \<Rightarrow> p)
                  \<in> set knownSenders);
             isFactorySenderViolation =
               ((case map_option toLowerCase factory of None \<Rightarrow> [] | Some f \<Rightarrow> f)
                  \<in> set knownSenders)
         in andThen (requireCond (\<not> isPaymasterSenderViolation) OpcodeValidation)
                    (requireCond (\<not> isFactorySenderViolation) OpcodeValidation)))"

text \<open>
  The private \<^verbatim>\<open>updateSeenStatus\<close> of the mempool: an \<^verbatim>\<open>RpcError\<close> of the stake check
  is swallowed (the sender is then not counted), any other error is thrown on.
\<close>

definition mempool_updateSeenStatus ::
  "ReputationManager \<Rightarrow> string option \<Rightarrow> UserOperation \<Rightarrow> StakeInfo \<Rightarrow> error option \<times> ReputationManager" where
  "mempool_updateSeenStatus rm aggr op senderInfo =
     (case checkStake rm (Some senderInfo) of
        Some (JsError m) \<Rightarrow> (Some (JsError m), rm)
      | r \<Rightarrow>
          (let rm1 = (if r = None then updateSeenStatus (Some (sender op)) rm else rm);
               rm2 = updateSeenStatus aggr rm1;
               rm3 = updateSeenStatus (getAddr (Some (paymasterAndData op))) rm2;
               rm4 = updateSeenStatus (getAddr (Some (initCode op))) rm3
           in (None, rm4)))"

text \<open>
  \<^verbatim>\<open>addUserOp\<close>. The result holds the error thrown, if any, and the two objects as the
  call leaves them. On the path of a new entry the three increments come first, then the
  two checks that may throw, then the push.
\<close>

definition addUserOp ::
  "ReputationManager \<Rightarrow> MempoolManager \<Rightarrow> UserOperation \<Rightarrow> string \<Rightarrow> nat \<Rightarrow> ReferencedCodeHashes \<Rightarrow>
   StakeInfo \<Rightarrow> StakeInfo option \<Rightarrow> StakeInfo option \<Rightarrow> StakeInfo option \<Rightarrow>
   error option \<times> ReputationManager \<times> MempoolManager" where
  "addUserOp rm mm op opHash pf refs senderInfo paymasterInfo factoryInfo aggregatorInfo =
     (let entry = \<lparr>userOp = op, userOpHash = opHash, prefund = pf, referencedContracts = refs,
                   aggregator = map_option addr aggregatorInfo\<rparr>;
          index = findBySenderNonce mm (sender op) (nonce op)
      in
        if index \<noteq> - 1 then
          (let oldEntry = mempool mm ! nat index in
           case checkReplaceUserOp oldEntry entry of
             Some e \<Rightarrow> (Some e, rm, mm)
           | None \<Rightarrow>
               (let mm1 = mm\<lparr>mempool := (mempool mm)[nat index := entry]\<rparr>;
                    (r, rm1) = mempool_updateSeenStatus rm (map_option addr aggregatorInfo) op senderInfo
                in (r, rm1, mm1)))
        else
          (let mm1 = incrementEntryCount (Some (sender op)) mm;
               paymaster = getAddr (Some (paymasterAndData op));
               mm2 = (if paymaster \<noteq> None then incrementEntryCount paymaster mm1 else mm1);
               factory = getAddr (Some (initCode op));
               mm3 = (if factory \<noteq> None then incrementEntryCount factory mm2 else mm2)
           in
             case checkReputation rm mm3 senderInfo paymasterInfo factoryInfo aggregatorInfo of
               Some e \<Rightarrow> (Some e, rm, mm3)
             | None \<Rightarrow>
                 (case checkMultipleRolesViolation mm3 op of
                    Some e \<Rightarrow> (Some e, rm, mm3)
                  | None \<Rightarrow>
                      (let mm4 = mm3\<lparr>mempool := mempool mm3 @ [entry]\<rparr>;
                           (r, rm1) = mempool_updateSeenStatus rm (map_option addr aggregatorInfo)
                                        op senderInfo
                       in (r, rm1, mm4)))))"

text \<open>
  \<^verbatim>\<open>getSortedForInclusion\<close>: a stable sort of a copy by \<^verbatim>\<open>maxPriorityFeePerGas\<close>,
  ascending. The comparator converts both fees with \<^verbatim>\<open>toNumber\<close>; it is called on every
  element as soon as the array has two.
\<close>

definition getSortedForInclusion :: "MempoolManager \<Rightarrow> error + MempoolEntry list" where
  "getSortedForInclusion mm =
     (let copy = mempool mm in
      if length copy \<ge> 2 \<and> (\<exists>e \<in> set copy. isl (toNumber (maxPriorityFeePerGas (userOp e))))
      then Inl (JsError ''overflow'')
      else Inr (sort_key (\<lambda>e. maxPriorityFeePerGas (userOp e)) copy))"

datatype UserOpOrHash = ByUserOp UserOperation | ByHash string

text \<open>\<^verbatim>\<open>removeUserOp\<close>: \<^verbatim>\<open>splice(index, 1)\<close> and the three decrements, when a match exists.\<close>

definition removeUserOp :: "UserOpOrHash \<Rightarrow> MempoolManager \<Rightarrow> MempoolManager" where
  "removeUserOp userOpOrHash mm =
     (let index = (case userOpOrHash of
                     ByHash h \<Rightarrow> findByHash mm h
                   | ByUserOp op \<Rightarrow> findBySenderNonce mm (sender op) (nonce op))
      in
        if index \<noteq> - 1 then
          (let op = userOp (mempool mm ! nat index);
               mm1 = mm\<lparr>mempool := take (nat index) (mempool mm) @ drop (nat index + 1) (mempool mm)\<rparr>;
               mm2 = decrementEntryCount (Some (sender op)) mm1;
               mm3 = decrementEntryCount (getAddr (Some (paymasterAndData op))) mm2
           in decrementEntryCount (getAddr (Some (initCode op))) mm3)
        else mm)"

definition dump :: "MempoolManager \<Rightarrow> UserOperation list" where
  "dump mm = map userOp (mempool mm)"

definition clearState :: "MempoolManager \<Rightarrow> MempoolManager" where
  "clearState mm = mm\<lparr>mempool := [], entryCountMap := Map.empty\<rparr>"

text \<open>
  The mempool states the public operations can produce, starting from a fresh manager.
  \<^verbatim>\<open>addUserOp\<close> contributes the state it leaves behind whether it returns or throws, for
  any arguments and any state of the reputation manager.
\<close>

definition emptyMempool :: MempoolManager where
  "emptyMempool = \<lparr>mempool = [], entryCountMap = Map.empty\<rparr>"

inductive reachable :: "MempoolManager \<Rightarrow> bool" where
  reachable_init: "reachable emptyMempool"
| reachable_add:
    "reachable mm \<Longrightarrow>
     addUserOp rm mm op opHash pf refs senderInfo paymasterInfo factoryInfo aggregatorInfo = (r, rm', mm') \<Longrightarrow>
     reachable mm'"
| reachable_remove: "reachable mm \<Longrightarrow> reachable (removeUserOp userOpOrHash mm)"
| reachable_clear: "reachable mm \<Longrightarrow> reachable (clearState mm)"


text \<open>Every stored count is at least one.\<close>

definition countsPositive :: "MempoolManager \<Rightarrow> bool" where
  "countsPositive mm = (\<forall>k c. entryCountMap mm k = Some c \<longrightarrow> 1 \<le> c)"


section \<open>Validation manager (\<^verbatim>\<open>validation-manager/ValidationManager.ts\<close>)\<close>

text \<open>
  A \<^verbatim>\<open>StorageMap\<close> maps an address to either a root hash (a string) or a map from slots
  to values. JavaScript objects keep their keys in insertion order, so both are association
  lists; \<open>objSet\<close> is the assignment \<^verbatim>\<open>obj[key] = value\<close>.
\<close>

type_synonym SlotMap = "(string \<times> string) list"

type_synonym StorageMap = "(string \<times> (string + SlotMap)) list"

fun objSet :: "string \<Rightarrow> 'v \<Rightarrow> (string \<times> 'v) list \<Rightarrow> (string \<times> 'v) list" where
  "objSet k v [] = [(k, v)]"
| "objSet k v ((k', v') # rest) = (if k' = k then (k, v) # rest else (k', v') # objSet k v rest)"

fun mergeSlots :: "SlotMap \<Rightarrow> SlotMap \<Rightarrow> SlotMap" where
  "mergeSlots slots [] = slots"
| "mergeSlots slots ((slot, val) # rest) = mergeSlots (objSet slot val slots) rest"

fun mergeStorageMap :: "StorageMap \<Rightarrow> StorageMap \<Rightarrow> StorageMap" where
  "mergeStorageMap mergedStorageMap [] = mergedStorageMap"
| "mergeStorageMap mergedStorageMap ((a, validationEntry) # rest) =
     mergeStorageMap
       (case validationEntry of
          Inl root \<Rightarrow> objSet a (Inl root) mergedStorageMap
        | Inr newSlots \<Rightarrow>
            (case map_of mergedStorageMap a of
               Some (Inl root) \<Rightarrow> mergedStorageMap
             | Some (Inr slots) \<Rightarrow> objSet a (Inr (mergeSlots slots newSlots)) mergedStorageMap
             | None \<Rightarrow> objSet a (Inr (mergeSlots [] newSlots)) mergedStorageMap))
       rest"

definition VALID_UNTIL_FUTURE_SECONDS :: int where
  "VALID_UNTIL_FUTURE_SECONDS = 30"

text \<open>
  The \<^verbatim>\<open>returnInfo\<close> of a simulation. \<^verbatim>\<open>validUntil\<close> is optional in the model because
  the code tests it against \<^verbatim>\<open>null\<close>; \<open>ri_prefund\<close> is the field \<^verbatim>\<open>prefund\<close>
  (renamed: the mempool entry has a field of that name).
\<close>

record ReturnInfo =
  preOpGas :: nat
  ri_prefund :: nat
  sigFailed :: bool
  validAfter :: int
  validUntil :: "int option"

record ValidationResult =
  returnInfo :: ReturnInfo
  senderInfo :: StakeInfo
  factoryInfo :: "StakeInfo option"
  paymasterInfo :: "StakeInfo option"
  aggregatorInfo :: "StakeInfo option"

text \<open>\<^verbatim>\<open>ValidateUserOpResult extends ValidationResult\<close> (fields renamed as above).\<close>

record ValidateUserOpResult = ValidationResult +
  res_referencedContracts :: ReferencedCodeHashes
  res_storageMap :: StorageMap

text \<open>
  The validation manager with the node and the EntryPoint contract behind it. What the
  code obtains by awaiting them is a field here:
  \<^item> \<open>codeHashOf\<close>: the hash the \<^verbatim>\<open>CodeHashGetter\<close> script returns for a list of addresses;
  \<^item> \<open>callSimulateValidation\<close>: the outcome of \<^verbatim>\<open>_callSimulateValidation\<close> (unsafe mode),
    the parsed validation result or the error thrown;
  \<^item> \<open>traceSimulateValidation\<close>: the outcome of \<^verbatim>\<open>_geth_traceCall_SimulateValidation\<close>
    followed by \<^verbatim>\<open>tracerResultParser\<close> (safe mode): an error thrown by either, or the
    validation result (\<open>None\<close> for the bare revert data \<^verbatim>\<open>0x\<close>), the contract addresses
    and the storage map;
  \<^item> \<open>clock\<close>: \<^verbatim>\<open>Math.floor(Date.now() / 1000)\<close> at the time the operation is validated.
\<close>

record ValidationManager =
  unsafe :: bool
  codeHashOf :: "string list \<Rightarrow> string"
  callSimulateValidation :: "UserOperation \<Rightarrow> error + ValidationResult"
  traceSimulateValidation ::
    "UserOperation \<Rightarrow> error + (ValidationResult option \<times> string list \<times> StorageMap)"
  clock :: "UserOperation \<Rightarrow> int"

definition getCodeHashes :: "ValidationManager \<Rightarrow> string list \<Rightarrow> ReferencedCodeHashes" where
  "getCodeHashes vm as = \<lparr>addresses = as, hash = codeHashOf vm as\<rparr>"

text \<open>
  The first half of \<^verbatim>\<open>validateUserOp\<close> (lines 173 to 200): the check of the code hashes
  of a previous validation, then the simulation in safe or unsafe mode.
\<close>

definition validateUserOp_simulate ::
  "ValidationManager \<Rightarrow> UserOperation \<Rightarrow> ReferencedCodeHashes option \<Rightarrow>
   error + (ValidationResult \<times> ReferencedCodeHashes \<times> StorageMap)" where
  "validateUserOp_simulate vm op previousCodeHashes =
     (case (case previousCodeHashes of
              None \<Rightarrow> None
            | Some prev \<Rightarrow>
                if length (addresses prev) > 0
                then requireCond (hash (getCodeHashes vm (addresses prev)) = hash prev) OpcodeValidation
                else None) of
        Some e \<Rightarrow> Inl e
      | None \<Rightarrow>
          if \<not> unsafe vm then
            (case traceSimulateValidation vm op of
               Inl e \<Rightarrow> Inl e
             | Inr (res, contractAddresses, storageMap) \<Rightarrow>
                 (let codeHashes =
                        (if previousCodeHashes = None then getCodeHashes vm contractAddresses
                         else \<lparr>addresses = [], hash = []\<rparr>)
                  in case res of
                       None \<Rightarrow> Inl (JsError ''simulateValidation reverted with no revert string!'')
                     | Some r \<Rightarrow> Inr (r, codeHashes, storageMap)))
          else
            (case callSimulateValidation vm op of
               Inl e \<Rightarrow> Inl e
             | Inr r \<Rightarrow> Inr (r, \<lparr>addresses = [], hash = []\<rparr>, [])))"

text \<open>
  The second half (lines 202 to 242): signature, the three time-range checks, aggregator,
  extra verification gas (whose \<^verbatim>\<open>toNumber\<close> throws outside 53 bits).
\<close>

definition validateUserOp_checks :: "int \<Rightarrow> UserOperation \<Rightarrow> ValidationResult \<Rightarrow> error option" where
  "validateUserOp_checks now op res =
     andThen (requireCond (\<not> sigFailed (returnInfo res)) InvalidSignature)
    (andThen (requireCond (validAfter (returnInfo res) \<le> now) NotInTimeRange)
    (andThen (requireCond (validUntil (returnInfo res) = None
                           \<or> the (validUntil (returnInfo res)) \<ge> now) NotInTimeRange)
    (andThen (requireCond (validUntil (returnInfo res) = None
                           \<or> the (validUntil (returnInfo res)) > now + VALID_UNTIL_FUTURE_SECONDS)
                NotInTimeRange)
    (andThen (requireCond (aggregatorInfo res = None) UnsupportedSignatureAggregator)
       (let verificationCost = int (preOpGas (returnInfo res)) - int (preVerificationGas op);
            extraGas = int (verificationGasLimit op) - verificationCost
        in if \<bar>extraGas\<bar> \<ge> 2 ^ 53 then Some (JsError ''overflow'')
           else requireCond (extraGas \<ge> 2000) SimulateValidation)))))"

definition validateUserOp ::
  "ValidationManager \<Rightarrow> UserOperation \<Rightarrow> ReferencedCodeHashes option \<Rightarrow> bool \<Rightarrow>
   error + ValidateUserOpResult" where
  "validateUserOp vm op previousCodeHashes checkStakes =
     (case validateUserOp_simulate vm op previousCodeHashes of
        Inl e \<Rightarrow> Inl e
      | Inr (res, codeHashes, storageMap) \<Rightarrow>
          (let now = clock vm op in
           case validateUserOp_checks now op res of
             Some e \<Rightarrow> Inl e
           | None \<Rightarrow>
               Inr \<lparr>returnInfo = returnInfo res, senderInfo = senderInfo res,
                    factoryInfo = factoryInfo res, paymasterInfo = paymasterInfo res,
                    aggregatorInfo = aggregatorInfo res,
                    res_referencedContracts = codeHashes, res_storageMap = storageMap\<rparr>))"

text \<open>
  The time range as the specification words it: violated when \<open>validAfter > now\<close>, or when
  \<open>validUntil\<close> is non-zero and \<open>validUntil < now + 30\<close>.
\<close>

definition spec_timeRangeViolated :: "int \<Rightarrow> int \<Rightarrow> int \<Rightarrow> bool" where
  "spec_timeRangeViolated now vAfter vUntil = (vAfter > now \<or> (vUntil \<noteq> 0 \<and> vUntil < now + 30))"


section \<open>Bundle manager (\<^verbatim>\<open>modules/BundleManager.ts\<close>)\<close>

definition THROTTLED_ENTITY_BUNDLE_COUNT :: nat where
  "THROTTLED_ENTITY_BUNDLE_COUNT = 4"

text \<open>
  \<^verbatim>\<open>maxBundleGas\<close> is a JavaScript \<^verbatim>\<open>number\<close> that the gas check hands to
  \<^verbatim>\<open>BigNumber.gt\<close>, which converts it with \<^verbatim>\<open>BigNumber.from\<close>. On a number, ethers v5
  throws a numeric fault when the value has a fractional part (\<^verbatim>\<open>value % 1\<close>) or lies
  outside the open interval between \<open>-(2^53 - 1)\<close> and \<open>2^53 - 1\<close>; \<^verbatim>\<open>NaN\<close> and the
  infinities are refused as well. So a number is an integer, or something that is not one
  and whose value does not matter.
\<close>

datatype JsNumber = JsInt int | JsNotInteger

definition bigNumberFrom :: "JsNumber \<Rightarrow> error + int" where
  "bigNumberFrom v =
     (case v of
        JsNotInteger \<Rightarrow> Inl (JsError ''underflow'')
      | JsInt n \<Rightarrow>
          if n \<ge> 2 ^ 53 - 1 \<or> n \<le> - (2 ^ 53 - 1) then Inl (JsError ''overflow'') else Inr n)"

text \<open>
  The configuration of the bundle manager and the two reads \<^verbatim>\<open>createBundle\<close> makes of
  the chain: \<^verbatim>\<open>entryPoint.balanceOf\<close> and the \<^verbatim>\<open>storageHash\<close> of \<^verbatim>\<open>eth_getProof\<close>.
\<close>

record BundleManager =
  beneficiary :: string
  minSignerBalance :: nat
  maxBundleGas :: JsNumber
  conditionalRpc :: bool
  mergeToAccountRootHash :: bool
  balanceOf :: "string \<Rightarrow> nat"
  getProofStorageHash :: "string \<Rightarrow> string"

text \<open>
  The local variables of \<^verbatim>\<open>createBundle\<close> (\<open>bundleOps\<close> is the array
  \<^verbatim>\<open>bundle\<close>), and the mempool manager, from which the loop removes entries.
\<close>

record BundleState =
  bundleOps :: "UserOperation list"
  paymasterDeposit :: "string \<rightharpoonup> nat"
  stakedEntityCount :: "string \<rightharpoonup> nat"
  senders :: "string set"
  storageMap :: StorageMap
  totalGas :: nat
  pool :: MempoolManager

text \<open>
  The operator \<^verbatim>\<open>a ?? b\<close>: \<open>b\<close> when \<open>a\<close> is \<^verbatim>\<open>null\<close> or \<^verbatim>\<open>undefined\<close>, else \<open>a\<close>.
  A comparison \<^verbatim>\<open>x === y\<close> is a boolean, never \<^verbatim>\<open>null\<close>, so in the two tests of the
  build loop the left operand is \<open>Some\<close> of it.
\<close>

definition nullish :: "'a option \<Rightarrow> 'a \<Rightarrow> 'a" where
  "nullish a b = (case a of None \<Rightarrow> b | Some v \<Rightarrow> v)"

text \<open>
  One pass of the loop body ends in \<^verbatim>\<open>continue\<close> (or its end), in \<^verbatim>\<open>break\<close>, or
  in an exception that leaves \<^verbatim>\<open>createBundle\<close> (the only \<^verbatim>\<open>try\<close> of the loop is around
  the validation).
\<close>

datatype 'a LoopStep = Continue 'a | Break 'a | Throw error 'a

fun stateOf :: "'a LoopStep \<Rightarrow> 'a" where
  "stateOf (Continue s) = s"
| "stateOf (Break s) = s"
| "stateOf (Throw e s) = s"

text \<open>
  The end of the loop body (lines 437 to 450), reached by an entry that is admitted: the
  factory is counted, the storage maps are merged, the operation is pushed.
\<close>

definition createBundle_admit ::
  "BundleManager \<Rightarrow> BundleState \<Rightarrow> MempoolEntry \<Rightarrow> ValidateUserOpResult \<Rightarrow> nat \<Rightarrow> BundleState" where
  "createBundle_admit bm st entry validationResult newTotalGas =
     (let factory = getAddr (Some (initCode (userOp entry)));
          sc = (case factory of
                  None \<Rightarrow> st
                | Some f \<Rightarrow>
                    st\<lparr>stakedEntityCount :=
                         (stakedEntityCount st)(f \<mapsto> nullish (stakedEntityCount st f) 0 + 1)\<rparr>);
          sd = (if mergeToAccountRootHash bm \<and> conditionalRpc bm \<and>
                   length (initCode (userOp entry)) \<le> 2
                then sc\<lparr>storageMap :=
                          objSet (toLowerCase (sender (userOp entry)))
                            (Inl (getProofStorageHash bm (sender (userOp entry))))
                            (storageMap sc)\<rparr>
                else sc);
          se = sd\<lparr>storageMap := mergeStorageMap (storageMap sd) (res_storageMap validationResult)\<rparr>
      in se\<lparr>senders := insert (sender (userOp entry)) (senders se),
            bundleOps := bundleOps se @ [userOp entry],
            totalGas := newTotalGas\<rparr>)"

definition createBundle_step ::
  "BundleManager \<Rightarrow> ValidationManager \<Rightarrow> ReputationManager \<Rightarrow> string list \<Rightarrow>
   BundleState \<Rightarrow> MempoolEntry \<Rightarrow> BundleState LoopStep" where
  "createBundle_step bm vm rm knownSenders st entry =
     (let paymaster = getAddr (Some (paymasterAndData (userOp entry)));
          factory = getAddr (Some (initCode (userOp entry)));
          paymasterStatus = getStatus rm paymaster;
          deployerStatus = getStatus rm factory
      in
        if paymasterStatus = BANNED \<or> deployerStatus = BANNED then
          Continue (st\<lparr>pool := removeUserOp (ByUserOp (userOp entry)) (pool st)\<rparr>)
        else if paymaster \<noteq> None \<and>
                nullish (Some (paymasterStatus = THROTTLED))
                  (nullish (stakedEntityCount st (the paymaster)) 0 > THROTTLED_ENTITY_BUNDLE_COUNT)
        then Continue st
        else if factory \<noteq> None \<and>
                nullish (Some (deployerStatus = THROTTLED))
                  (nullish (stakedEntityCount st (the factory)) 0 > THROTTLED_ENTITY_BUNDLE_COUNT)
        then Continue st
        else if sender (userOp entry) \<in> senders st then Continue st
        else
          (case validateUserOp vm (userOp entry) (Some (referencedContracts entry)) False of
             Inl e \<Rightarrow> Continue (st\<lparr>pool := removeUserOp (ByUserOp (userOp entry)) (pool st)\<rparr>)
           | Inr validationResult \<Rightarrow>
               if \<exists>storageAddress \<in> set (map fst (res_storageMap validationResult)).
                    toLowerCase storageAddress \<noteq> toLowerCase (sender (userOp entry)) \<and>
                    toLowerCase storageAddress \<in> set knownSenders
               then Continue st
               else
                 (let userOpGasCost = preOpGas (returnInfo validationResult)
                                        + callGasLimit (userOp entry);
                      newTotalGas = totalGas st + userOpGasCost
                  in
                    case bigNumberFrom (maxBundleGas bm) of
                      Inl e \<Rightarrow> Throw e st
                    | Inr limit \<Rightarrow>
                    if int newTotalGas > limit then Break st
                    else
                      (case paymaster of
                         None \<Rightarrow> Continue (createBundle_admit bm st entry validationResult newTotalGas)
                       | Some p \<Rightarrow>
                           (let deposit = (case paymasterDeposit st p of
                                             None \<Rightarrow> balanceOf bm p
                                           | Some d \<Rightarrow> d);
                                sa = st\<lparr>paymasterDeposit := (paymasterDeposit st)(p \<mapsto> deposit)\<rparr>
                            in
                              if deposit < ri_prefund (returnInfo validationResult)
                              then Continue sa
                              else
                                (let sb = sa\<lparr>stakedEntityCount :=
                                               (stakedEntityCount sa)(p \<mapsto>
                                                  nullish (stakedEntityCount sa p) 0 + 1),
                                             paymasterDeposit :=
                                               (paymasterDeposit sa)(p \<mapsto>
                                                  deposit - ri_prefund (returnInfo validationResult))\<rparr>
                                 in Continue (createBundle_admit bm sb entry validationResult
                                                newTotalGas)))))))"

text \<open>
  The \<^verbatim>\<open>for\<close> loop over the sorted copy: it ends at the end of the list, at a
  \<^verbatim>\<open>break\<close> or at an exception.
\<close>

fun createBundle_loop ::
  "BundleManager \<Rightarrow> ValidationManager \<Rightarrow> ReputationManager \<Rightarrow> string list \<Rightarrow>
   MempoolEntry list \<Rightarrow> BundleState \<Rightarrow> BundleState LoopStep" where
  "createBundle_loop bm vm rm knownSenders [] st = Continue st"
| "createBundle_loop bm vm rm knownSenders (entry # rest) st =
     (case createBundle_step bm vm rm knownSenders st entry of
        Break st' \<Rightarrow> Break st'
      | Throw e st' \<Rightarrow> Throw e st'
      | Continue st' \<Rightarrow> createBundle_loop bm vm rm knownSenders rest st')"

definition initialBundleState :: "MempoolManager \<Rightarrow> BundleState" where
  "initialBundleState mm =
     \<lparr>bundleOps = [], paymasterDeposit = Map.empty, stakedEntityCount = Map.empty, senders = {},
      storageMap = [], totalGas = 0, pool = mm\<rparr>"

text \<open>
  \<^verbatim>\<open>createBundle\<close> returns the bundle and the storage map, or throws; the second
  component is the mempool manager as the call leaves it in either case.
\<close>

definition createBundle ::
  "BundleManager \<Rightarrow> ValidationManager \<Rightarrow> ReputationManager \<Rightarrow> MempoolManager \<Rightarrow>
   (error + (UserOperation list \<times> StorageMap)) \<times> MempoolManager" where
  "createBundle bm vm rm mm =
     (case getSortedForInclusion mm of
        Inl e \<Rightarrow> (Inl e, mm)
      | Inr sortedEntries \<Rightarrow>
          (let knownSenders = getKnownSenders mm in
           case createBundle_loop bm vm rm knownSenders sortedEntries (initialBundleState mm) of
             Throw e st \<Rightarrow> (Inl e, pool st)
           | Continue st \<Rightarrow> (Inr (bundleOps st, storageMap st), pool st)
           | Break st \<Rightarrow> (Inr (bundleOps st, storageMap st), pool st)))"

text \<open>
  The gas an entry is charged in the loop: \<^verbatim>\<open>preOpGas\<close> of its second validation plus
  its \<^verbatim>\<open>callGasLimit\<close> (only entries whose validation succeeds get that far).
\<close>

definition userOpGasCost :: "ValidationManager \<Rightarrow> MempoolEntry \<Rightarrow> nat" where
  "userOpGasCost vm entry =
     (case validateUserOp vm (userOp entry) (Some (referencedContracts entry)) False of
        Inl e \<Rightarrow> 0
      | Inr validationResult \<Rightarrow>
          preOpGas (returnInfo validationResult) + callGasLimit (userOp entry))"

text \<open>
  The tests of the loop body that come before the gas check and do not depend on the
  bundle built so far: paymaster and factory are neither banned nor throttled (their
  status is OK), the second validation succeeds with result \<open>r\<close>, and its storage map
  touches no other known sender. An entry that passes them and whose sender is not in the
  bundle yet reaches the gas check.
\<close>

definition passesGuards ::
  "ReputationManager \<Rightarrow> ValidationManager \<Rightarrow> string list \<Rightarrow> MempoolEntry \<Rightarrow>
   ValidateUserOpResult \<Rightarrow> bool" where
  "passesGuards rm vm knownSenders entry r =
     (getStatus rm (getAddr (Some (paymasterAndData (userOp entry)))) = OK \<and>
      getStatus rm (getAddr (Some (initCode (userOp entry)))) = OK \<and>
      validateUserOp vm (userOp entry) (Some (referencedContracts entry)) False = Inr r \<and>
      (\<forall>a \<in> set (map fst (res_storageMap r)).
         toLowerCase a = toLowerCase (sender (userOp entry)) \<or>
         toLowerCase a \<notin> set knownSenders))"



text \<open>
  The skip test in the words of the specification, which reads the operator \<^verbatim>\<open>??\<close> as
  a logical or: the entity is throttled, or it is already counted more than 4 times.
\<close>

definition spec_entitySkipped :: "ReputationStatus \<Rightarrow> nat \<Rightarrow> bool" where
  "spec_entitySkipped entityStatus n = (entityStatus = THROTTLED \<or> n > 4)"

text \<open>
  \<^verbatim>\<open>sendBundle\<close>. What happens inside the \<^verbatim>\<open>try\<close> block is the node's doing: either the
  transaction is sent (\<open>Sent\<close>, with its hash and the hashes of the operations) or
  something throws. For a thrown value, \<open>parsedError\<close> is the \<^verbatim>\<open>FailedOp(opIndex, reason)\<close>
  that \<^verbatim>\<open>parseError\<close> finds in it (\<open>None\<close> when \<^verbatim>\<open>parseError\<close> throws), and \<open>errorCode\<close> is
  \<^verbatim>\<open>e.error?.code\<close>.
\<close>

record ThrownError =
  parsedError :: "(nat \<times> string) option"
  errorCode :: "int option"

datatype HandleOpsOutcome = Sent string "string list" | Threw ThrownError

record SendBundleReturn =
  transactionHash :: string
  userOpHashes :: "string list"

definition startsWith :: "string \<Rightarrow> string \<Rightarrow> bool" where
  "startsWith s p = (take (length p) s = p)"

definition sendBundle ::
  "ReputationManager \<Rightarrow> MempoolManager \<Rightarrow> UserOperation list \<Rightarrow> HandleOpsOutcome \<Rightarrow>
   (error + SendBundleReturn option) \<times> ReputationManager \<times> MempoolManager" where
  "sendBundle rm mm userOps outcome =
     (case outcome of
        Sent ret hashes \<Rightarrow> (Inr (Some \<lparr>transactionHash = ret, userOpHashes = hashes\<rparr>), rm, mm)
      | Threw e \<Rightarrow>
          (case parsedError e of
             None \<Rightarrow>
               if errorCode e = Some (- 32601) then (Inl (JsError ''rethrown''), rm, mm)
               else (Inr None, rm, mm)
           | Some (opIndex, reason) \<Rightarrow>
               if opIndex \<ge> length userOps then (Inl (JsError ''TypeError''), rm, mm)
               else
                 (let op = userOps ! opIndex in
                  if startsWith reason ''AA3'' then
                    (Inr None, crashedHandleOps (getAddr (Some (paymasterAndData op))) rm, mm)
                  else if startsWith reason ''AA2'' then
                    (Inr None, crashedHandleOps (Some (sender op)) rm, mm)
                  else if startsWith reason ''AA1'' then
                    (Inr None, crashedHandleOps (getAddr (Some (initCode op))) rm, mm)
                  else (Inr None, rm, removeUserOp (ByUserOp op) mm))))"


section \<open>Concrete inputs\<close>

text \<open>A reputation manager with the bundler's parameters, no entries and empty lists.\<close>

definition freshReputation :: ReputationManager where
  "freshReputation =
     \<lparr>params = BundlerReputationParams, minStake = 1, minUnstakeDelay = 1,
      entries = Map.empty, blackList = {}, whitelist = {}\<rparr>"

text \<open>A UserOperation without factory and paymaster, with the given sender and fees.\<close>

definition plainOp :: "string \<Rightarrow> nat \<Rightarrow> nat \<Rightarrow> UserOperation" where
  "plainOp s fee prio =
     \<lparr>sender = s, nonce = ''0x0'', initCode = ''0x'', callData = ''0x'',
      callGasLimit = 100, verificationGasLimit = 100000, preVerificationGas = 50000,
      maxFeePerGas = fee, maxPriorityFeePerGas = prio,
      paymasterAndData = ''0x'', signature = ''0x''\<rparr>"

definition entryOf :: "UserOperation \<Rightarrow> string \<Rightarrow> MempoolEntry" where
  "entryOf op h =
     \<lparr>userOp = op, userOpHash = h, prefund = 0,
      referencedContracts = \<lparr>addresses = [], hash = []\<rparr>, aggregator = None\<rparr>"

definition stakeOf :: "string \<Rightarrow> StakeInfo" where
  "stakeOf a = \<lparr>addr = a, stake = 0, unstakeDelaySec = 0\<rparr>"


text \<open>
  A validation manager in unsafe mode whose simulation returns \<open>sim op\<close> and whose clock
  reads \<open>now\<close>; the simulation that returns the same result \<open>r\<close> for every operation;
  a simulation result with the given time range and \<^verbatim>\<open>preOpGas\<close>.
\<close>

definition unsafeManager ::
  "(UserOperation \<Rightarrow> error + ValidationResult) \<Rightarrow> int \<Rightarrow> ValidationManager" where
  "unsafeManager sim now =
     \<lparr>unsafe = True, codeHashOf = (\<lambda>as. []), callSimulateValidation = sim,
      traceSimulateValidation = (\<lambda>op. Inl (JsError [])), clock = (\<lambda>op. now)\<rparr>"

definition alwaysValid :: "ValidationResult \<Rightarrow> UserOperation \<Rightarrow> error + ValidationResult" where
  "alwaysValid r op = Inr r"

definition simResult :: "string \<Rightarrow> int \<Rightarrow> int option \<Rightarrow> nat \<Rightarrow> ValidationResult" where
  "simResult s vAfter vUntil gas =
     \<lparr>returnInfo = \<lparr>preOpGas = gas, ri_prefund = 0, sigFailed = False,
                     validAfter = vAfter, validUntil = vUntil\<rparr>,
      senderInfo = stakeOf s, factoryInfo = None, paymasterInfo = None, aggregatorInfo = None\<rparr>"

text \<open>An address used as paymaster, and an operation that names it.\<close>

definition paymasterP :: string where
  "paymasterP = ''0xcccccccccccccccccccccccccccccccccccccccc''"

definition sponsoredOp :: "string \<Rightarrow> UserOperation" where
  "sponsoredOp s = (plainOp s 100 100)\<lparr>paymasterAndData := paymasterP\<rparr>"


text \<open>
  A bundle manager with gas limit \<open>g\<close>, no conditional RPC, and a chain on which every
  deposit is 1000. A validation manager (unsafe mode, clock at 1000) for which every
  operation simulates successfully with \<^verbatim>\<open>preOpGas = 60000\<close> and no expiry.
\<close>

definition plainBundleManager :: "int \<Rightarrow> BundleManager" where
  "plainBundleManager g =
     \<lparr>beneficiary = ''0xbe'', minSignerBalance = 0, maxBundleGas = JsInt g, conditionalRpc = False,
      mergeToAccountRootHash = False, balanceOf = (\<lambda>a. 1000), getProofStorageHash = (\<lambda>a. [])\<rparr>"

definition okManager :: ValidationManager where
  "okManager = unsafeManager (\<lambda>op. Inr (simResult (sender op) 0 None 60000)) 1000"

text \<open>What the second validation by \<open>okManager\<close> returns for an operation of sender \<open>s\<close>.\<close>

definition okResult :: "string \<Rightarrow> ValidateUserOpResult" where
  "okResult s =
     \<lparr>returnInfo = \<lparr>preOpGas = 60000, ri_prefund = 0, sigFailed = False,
                     validAfter = 0, validUntil = None\<rparr>,
      senderInfo = stakeOf s, factoryInfo = None, paymasterInfo = None, aggregatorInfo = None,
      res_referencedContracts = \<lparr>addresses = [], hash = []\<rparr>, res_storageMap = []\<rparr>"


text \<open>Two operations of two senders; six operations of six senders that share a paymaster.\<close>

definition twoOps :: MempoolManager where
  "twoOps =
     \<lparr>mempool = [entryOf (plainOp ''0xa1'' 100 100) ''0xh1'', entryOf (plainOp ''0xb2'' 100 100) ''0xh2''],
      entryCountMap = [''0xa1'' \<mapsto> 1, ''0xb2'' \<mapsto> 1]\<rparr>"

definition sixSponsored :: MempoolManager where
  "sixSponsored =
     \<lparr>mempool = [entryOf (sponsoredOp ''0xs1'') ''0xh1'', entryOf (sponsoredOp ''0xs2'') ''0xh2'',
                 entryOf (sponsoredOp ''0xs3'') ''0xh3'', entryOf (sponsoredOp ''0xs4'') ''0xh4'',
                 entryOf (sponsoredOp ''0xs5'') ''0xh5'', entryOf (sponsoredOp ''0xs6'') ''0xh6''],
      entryCountMap = [''0xs1'' \<mapsto> 1, ''0xs2'' \<mapsto> 1, ''0xs3'' \<mapsto> 1, ''0xs4'' \<mapsto> 1,
                       ''0xs5'' \<mapsto> 1, ''0xs6'' \<mapsto> 1, paymasterP \<mapsto> 6]\<rparr>"


text \<open>An operation that deploys its account through a factory at the same address.\<close>

definition deployedOp :: "string \<Rightarrow> UserOperation" where
  "deployedOp s = (plainOp s 100 100)\<lparr>initCode := paymasterP\<rparr>"


text \<open>A reputation manager in which the paymaster is throttled (200 seen, none included).\<close>

definition throttledReputation :: ReputationManager where
  "throttledReputation =
     freshReputation\<lparr>entries := [paymasterP \<mapsto>
        \<lparr>address = paymasterP, opsSeen = 200, opsIncluded = 0, status = None\<rparr>]\<rparr>"


section \<open>Reputation manager: properties\<close>

lemma hourlyCron_lookup:
  "entries (hourlyCron rm) a = (case entries rm a of None \<Rightarrow> None | Some entry \<Rightarrow> hourlyCron_entry entry)"
  by (simp add: hourlyCron_def)

text \<open>
  C2. The claim asks that \<^verbatim>\<open>hourlyCron\<close> replace \<^verbatim>\<open>opsIncluded\<close> by
  \<open>floor(opsIncluded*23/24)\<close> and that no counter grow. The code computes the new
  \<^verbatim>\<open>opsIncluded\<close> from \<^verbatim>\<open>opsSeen\<close>: an entry with \<open>opsSeen = 100\<close> and
  \<open>opsIncluded = 0\<close> comes out with \<open>opsSeen = 95\<close> and \<open>opsIncluded = 91\<close>, so
  \<^verbatim>\<open>opsIncluded\<close> has grown from 0 to 91 where the claim gives 0.
\<close>

theorem hourlyCron_opsIncluded_grows:
  "entries (hourlyCron
      \<lparr>params = BundlerReputationParams, minStake = 1, minUnstakeDelay = 1,
       entries = [''0xaa'' \<mapsto> \<lparr>address = ''0xaa'', opsSeen = 100, opsIncluded = 0, status = None\<rparr>],
       blackList = {}, whitelist = {}\<rparr>) ''0xaa''
   = Some \<lparr>address = ''0xaa'', opsSeen = 95, opsIncluded = 91, status = None\<rparr>"
  by (simp add: hourlyCron_lookup hourlyCron_entry_def)

section \<open>Evaluation lemmas\<close>

lemma bitlen_numeral [simp]: "bitlen (numeral n) = Suc (bitlen (numeral n div 2))"
  by (subst bitlen.simps) simp

lemma bitlen_0 [simp]: "bitlen 0 = 0"
  by (simp add: bitlen.simps)

lemma bitlen_1 [simp]: "bitlen (Suc 0) = 1"
  by (subst bitlen.simps) simp

lemma js_1_1_value: "js_1_1 = (4953959590107546, - 52)"
  by (simp add: js_1_1_def double_of_ratio_def round53_def Let_def)

lemma double_mul_100: "double_mul (double_of_nat 100) js_1_1 = (7740561859543041, - 46)"
  by (simp add: js_1_1_value double_mul_def double_of_nat_def round53_def Let_def)

lemma not_double_ge_110:
  "\<not> double_ge (double_of_nat 110) (double_mul (double_of_nat 100) js_1_1)"
  unfolding double_mul_100 by (simp add: double_ge_def double_of_nat_def round53_def Let_def)

lemma toLowerCase_0xbad: "toLowerCase ''0xbad'' = ''0xbad''"
  by (simp add: toLowerCase_def char_lower_def)

lemma toLowerCase_0xa1: "toLowerCase ''0xa1'' = ''0xa1''"
  by (simp add: toLowerCase_def char_lower_def)

lemma toLowerCase_0x: "toLowerCase ''0x'' = ''0x''"
  by (simp add: toLowerCase_def char_lower_def)

lemma length_toLowerCase [simp]: "length (toLowerCase s) = length s"
  by (simp add: toLowerCase_def)

lemma getAddr_0x: "getAddr (Some ''0x'') = None"
  by (simp add: getAddr_def hexlify_def)

lemma getAddr_short: "length d < 42 \<Longrightarrow> getAddr (Some d) = None"
  by (simp add: getAddr_def hexlify_def)

section \<open>Mempool manager: properties\<close>

lemma incrementEntryCount_None [simp]: "incrementEntryCount None mm = mm"
  by (simp add: incrementEntryCount_def)

lemma incrementEntryCount_positive:
  "countsPositive mm \<Longrightarrow> countsPositive (incrementEntryCount a mm)"
  unfolding countsPositive_def
  by (cases a) (auto simp: incrementEntryCount_def orZero_def split: option.splits if_splits, force)

lemma decrementEntryCount_positive:
  "countsPositive mm \<Longrightarrow> countsPositive (decrementEntryCount a mm)"
  unfolding countsPositive_def
  by (auto simp: decrementEntryCount_def orZero_def Let_def split: option.splits if_splits)

lemma addUserOp_entryCountMap:
  assumes "addUserOp rm mm op opHash pf refs si pi fi ai
             = (r, rm', mm')"
  shows "entryCountMap mm' = entryCountMap mm \<or>
         entryCountMap mm' =
           entryCountMap (incrementEntryCount (getAddr (Some (initCode op)))
             (incrementEntryCount (getAddr (Some (paymasterAndData op)))
               (incrementEntryCount (Some (sender op)) mm)))"
  using assms
  by (auto simp: addUserOp_def Let_def split: if_splits option.splits prod.splits)

lemma countsPositive_cong:
  "entryCountMap mm' = entryCountMap mm \<Longrightarrow> countsPositive mm \<Longrightarrow> countsPositive mm'"
  by (simp add: countsPositive_def)

lemma addUserOp_positive:
  assumes "addUserOp rm mm op opHash pf refs si pi fi ai
             = (r, rm', mm')"
    and "countsPositive mm"
  shows "countsPositive mm'"
proof -
  let ?mm3 = "incrementEntryCount (getAddr (Some (initCode op)))
             (incrementEntryCount (getAddr (Some (paymasterAndData op)))
               (incrementEntryCount (Some (sender op)) mm))"
  have "countsPositive ?mm3"
    by (intro incrementEntryCount_positive assms(2))
  with addUserOp_entryCountMap[OF assms(1)] assms(2) show ?thesis
    by (auto intro: countsPositive_cong)
qed

lemma removeUserOp_positive:
  assumes "countsPositive mm"
  shows "countsPositive (removeUserOp x mm)"
proof -
  have "\<And>l. countsPositive (mm\<lparr>mempool := l\<rparr>)"
    using assms by (simp add: countsPositive_def)
  then show ?thesis
    using assms
    by (auto simp: removeUserOp_def Let_def intro!: decrementEntryCount_positive)
qed

lemma reachable_countsPositive: "reachable mm \<Longrightarrow> countsPositive mm"
proof (induction rule: reachable.induct)
  case reachable_init
  then show ?case by (simp add: emptyMempool_def countsPositive_def)
next
  case (reachable_add mm rm op opHash pf refs si pi fi ai r rm' mm')
  then show ?case using addUserOp_positive by blast
next
  case (reachable_remove mm userOpOrHash)
  then show ?case by (simp add: removeUserOp_positive)
next
  case (reachable_clear mm)
  then show ?case by (simp add: clearState_def countsPositive_def)
qed

text \<open>A search that succeeds returns a valid index of the array.\<close>

lemma findBySenderNonce_from_range:
  "findBySenderNonce_from es i s n \<noteq> - 1 \<Longrightarrow> 0 \<le> i \<Longrightarrow>
   i \<le> findBySenderNonce_from es i s n \<and> findBySenderNonce_from es i s n < i + int (length es)"
  by (induction es arbitrary: i) (auto split: if_splits, force+)

lemma findByHash_from_range:
  "findByHash_from es i h \<noteq> - 1 \<Longrightarrow> 0 \<le> i \<Longrightarrow>
   i \<le> findByHash_from es i h \<and> findByHash_from es i h < i + int (length es)"
  by (induction es arbitrary: i) (auto split: if_splits, force+)

lemma findByHash_from_none:
  "\<forall>e \<in> set es. userOpHash e \<noteq> h \<Longrightarrow> findByHash_from es i h = - 1"
  by (induction es arbitrary: i) auto

lemma findBySenderNonce_from_none:
  "\<forall>e \<in> set es. \<not> (sender (userOp e) = s \<and> nonce (userOp e) = n) \<Longrightarrow>
   findBySenderNonce_from es i s n = - 1"
  by (induction es arbitrary: i) auto

text \<open>
  A first operation of sender \<open>0xa1\<close> enters the empty mempool: the entry is pushed and the
  sender counted once. (The sender is unstaked, so its \<^verbatim>\<open>opsSeen\<close> is not touched.)
\<close>

lemma addUserOp_first:
  "addUserOp freshReputation emptyMempool (plainOp ''0xa1'' 100 100) ''0xh1'' 0
     \<lparr>addresses = [], hash = []\<rparr> (stakeOf ''0xa1'') None None None
   = (None, freshReputation,
      \<lparr>mempool = [entryOf (plainOp ''0xa1'' 100 100) ''0xh1''],
       entryCountMap = [''0xa1'' \<mapsto> 1]\<rparr>)"
  by (simp add: addUserOp_def findBySenderNonce_def plainOp_def emptyMempool_def getAddr_0x
        incrementEntryCount_def toLowerCase_0xa1 orZero_def checkReputation_def
        checkReputationStatus_def checkBanned_def getStatus_def freshReputation_def stakeOf_def
        andThen_def requireCond_def entryCount_def MAX_MEMPOOL_USEROPS_PER_SENDER_def
        THROTTLED_ENTITY_MEMPOOL_COUNT_def checkMultipleRolesViolation_def getKnownEntities_def
        getKnownSenders_def mempool_updateSeenStatus_def checkStake_def isWhitelisted_def
        updateSeenStatus_def entryOf_def)

text \<open>
  C1. The claim asks that in every reachable state, also after an \<^verbatim>\<open>addUserOp\<close> that
  throws, \<^verbatim>\<open>entryCount[a]\<close> be the number of entries that name \<open>a\<close>, and absent when
  that number is zero. \<^verbatim>\<open>addUserOp\<close> increments the counts before the checks that may
  throw and does not undo them: on the empty mempool, an operation of the black-listed
  sender \<open>0xbad\<close> is refused with \<^verbatim>\<open>Reputation\<close>, the mempool stays empty, and
  \<^verbatim>\<open>entryCount('0xbad')\<close> is 1.
\<close>

theorem addUserOp_failure_leaves_count:
  "addUserOp (freshReputation\<lparr>blackList := {''0xbad''}\<rparr>) emptyMempool
     (plainOp ''0xbad'' 100 100) ''0xh1'' 0 \<lparr>addresses = [], hash = []\<rparr> (stakeOf ''0xbad'')
     None None None
   = (Some (RpcError Reputation), freshReputation\<lparr>blackList := {''0xbad''}\<rparr>,
      \<lparr>mempool = [], entryCountMap = [''0xbad'' \<mapsto> 1]\<rparr>)"
  by (simp add: addUserOp_def findBySenderNonce_def plainOp_def emptyMempool_def getAddr_0x
        incrementEntryCount_def toLowerCase_0xbad orZero_def checkReputation_def
        checkReputationStatus_def checkBanned_def getStatus_def freshReputation_def stakeOf_def
        andThen_def requireCond_def)

text \<open>
  C5. The claim asks that a replacement whose two fees are each exactly 10% higher than the
  old ones succeed, for every pair of old fees. The code compares with the double product
  \<^verbatim>\<open>old * 1.1\<close>; for \<open>old = 100\<close> that product is \<open>110.00000000000001\<close>, so the
  replacement with fees \<open>(110, 110)\<close> of an entry with fees \<open>(100, 100)\<close> is refused with
  \<^verbatim>\<open>InvalidFields\<close> and the mempool keeps the old entry.
\<close>

theorem addUserOp_replacement_plus_ten_percent_refused:
  "addUserOp freshReputation
     \<lparr>mempool = [entryOf (plainOp ''0xa1'' 100 100) ''0xh1''], entryCountMap = [''0xa1'' \<mapsto> 1]\<rparr>
     (plainOp ''0xa1'' 110 110) ''0xh2'' 0 \<lparr>addresses = [], hash = []\<rparr> (stakeOf ''0xa1'')
     None None None
   = (Some (RpcError InvalidFields), freshReputation,
      \<lparr>mempool = [entryOf (plainOp ''0xa1'' 100 100) ''0xh1''], entryCountMap = [''0xa1'' \<mapsto> 1]\<rparr>)"
  by (simp add: addUserOp_def findBySenderNonce_def plainOp_def entryOf_def checkReplaceUserOp_def
        toNumber_def not_double_ge_110 andThen_def requireCond_def)

text \<open>
  C8. In every reachable state of the mempool manager, \<^verbatim>\<open>entryCount(addr)\<close> is either
  \<^verbatim>\<open>undefined\<close> or at least 1: an increment stores at least 1, and a decrement deletes
  the key as soon as the count is zero or below.
\<close>

theorem entryCount_undefined_or_positive:
  "reachable mm \<Longrightarrow> (case entryCount mm a of None \<Rightarrow> True | Some c \<Rightarrow> 1 \<le> c)"
proof -
  assume "reachable mm"
  then have "countsPositive mm" by (rule reachable_countsPositive)
  then show ?thesis
    by (auto simp: countsPositive_def entryCount_def split: option.splits)
qed

theorem entryCount_undefined_or_positive_witness:
  "reachable \<lparr>mempool = [entryOf (plainOp ''0xa1'' 100 100) ''0xh1''],
              entryCountMap = [''0xa1'' \<mapsto> 1]\<rparr>
   \<and> entryCount \<lparr>mempool = [entryOf (plainOp ''0xa1'' 100 100) ''0xh1''],
                  entryCountMap = [''0xa1'' \<mapsto> 1]\<rparr> ''0xa1'' = Some 1
   \<and> (case entryCount \<lparr>mempool = [entryOf (plainOp ''0xa1'' 100 100) ''0xh1''],
                        entryCountMap = [''0xa1'' \<mapsto> 1]\<rparr> ''0xa1'' of
        None \<Rightarrow> True | Some c \<Rightarrow> 1 \<le> c)"
proof -
  let ?mm = "\<lparr>mempool = [entryOf (plainOp ''0xa1'' 100 100) ''0xh1''],
              entryCountMap = [''0xa1'' \<mapsto> (1::int)]\<rparr>"
  have r: "reachable ?mm"
    by (rule reachable_add[OF reachable_init addUserOp_first])
  have c: "entryCount ?mm ''0xa1'' = Some 1"
    by (simp add: entryCount_def toLowerCase_0xa1)
  from r c entryCount_undefined_or_positive[OF r, of "''0xa1''"] show ?thesis
    by simp
qed

text \<open>
  C9. \<^verbatim>\<open>removeUserOp\<close> with an argument that matches no stored entry (a hash no entry
  has, or an operation whose sender and nonce no entry has) leaves the mempool manager as it
  is: contents and counts. The model has no error result for this method: it cannot throw.
\<close>

theorem removeUserOp_no_match:
  "(case x of
      ByHash h \<Rightarrow> \<forall>e \<in> set (mempool mm). userOpHash e \<noteq> h
    | ByUserOp op \<Rightarrow>
        \<forall>e \<in> set (mempool mm). \<not> (sender (userOp e) = sender op \<and> nonce (userOp e) = nonce op))
   \<Longrightarrow> removeUserOp x mm = mm"
  by (cases x)
     (simp_all add: removeUserOp_def findByHash_def findBySenderNonce_def
        findByHash_from_none findBySenderNonce_from_none)

theorem removeUserOp_no_match_witness:
  "removeUserOp (ByHash ''0xh9'')
     \<lparr>mempool = [entryOf (plainOp ''0xa1'' 100 100) ''0xh1''], entryCountMap = [''0xa1'' \<mapsto> 1]\<rparr>
   = \<lparr>mempool = [entryOf (plainOp ''0xa1'' 100 100) ''0xh1''], entryCountMap = [''0xa1'' \<mapsto> 1]\<rparr>
   \<and> removeUserOp (ByUserOp (plainOp ''0xb2'' 100 100))
     \<lparr>mempool = [entryOf (plainOp ''0xa1'' 100 100) ''0xh1''], entryCountMap = [''0xa1'' \<mapsto> 1]\<rparr>
   = \<lparr>mempool = [entryOf (plainOp ''0xa1'' 100 100) ''0xh1''], entryCountMap = [''0xa1'' \<mapsto> 1]\<rparr>"
  using
    removeUserOp_no_match[where x = "ByHash ''0xh9''" and mm =
      "\<lparr>mempool = [entryOf (plainOp ''0xa1'' 100 100) ''0xh1''], entryCountMap = [''0xa1'' \<mapsto> 1]\<rparr>"]
    removeUserOp_no_match[where x = "ByUserOp (plainOp ''0xb2'' 100 100)" and mm =
      "\<lparr>mempool = [entryOf (plainOp ''0xa1'' 100 100) ''0xh1''], entryCountMap = [''0xa1'' \<mapsto> 1]\<rparr>"]
  by (simp add: entryOf_def plainOp_def)


section \<open>Evaluation lemmas for the concrete inputs\<close>

lemma plainOp_fields [simp]:
  "sender (plainOp s f p) = s"
  "nonce (plainOp s f p) = ''0x0''"
  "initCode (plainOp s f p) = ''0x''"
  "paymasterAndData (plainOp s f p) = ''0x''"
  "callGasLimit (plainOp s f p) = 100"
  "verificationGasLimit (plainOp s f p) = 100000"
  "preVerificationGas (plainOp s f p) = 50000"
  "maxFeePerGas (plainOp s f p) = f"
  "maxPriorityFeePerGas (plainOp s f p) = p"
  by (simp_all add: plainOp_def)

lemma sponsoredOp_fields [simp]:
  "sender (sponsoredOp s) = s"
  "nonce (sponsoredOp s) = ''0x0''"
  "initCode (sponsoredOp s) = ''0x''"
  "paymasterAndData (sponsoredOp s) = paymasterP"
  "callGasLimit (sponsoredOp s) = 100"
  "verificationGasLimit (sponsoredOp s) = 100000"
  "preVerificationGas (sponsoredOp s) = 50000"
  "maxFeePerGas (sponsoredOp s) = 100"
  "maxPriorityFeePerGas (sponsoredOp s) = 100"
  by (simp_all add: sponsoredOp_def plainOp_def)

lemma entryOf_fields [simp]:
  "userOp (entryOf op h) = op"
  "userOpHash (entryOf op h) = h"
  "referencedContracts (entryOf op h) = \<lparr>addresses = [], hash = []\<rparr>"
  by (simp_all add: entryOf_def)

lemma toLowerCase_paymasterP: "toLowerCase paymasterP = paymasterP"
  by (simp add: paymasterP_def toLowerCase_def char_lower_def)

lemma getAddr_paymasterP: "getAddr (Some paymasterP) = Some paymasterP"
  by (simp add: getAddr_def hexlify_def toLowerCase_paymasterP) (simp add: paymasterP_def)


lemma getStatus_fresh: "getStatus freshReputation a = OK"
  by (simp add: getStatus_def freshReputation_def split: option.splits)

lemma clock_unsafeManager: "clock (unsafeManager sim now) op = now"
  by (simp add: unsafeManager_def)

lemma simulate_unsafeManager:
  "validateUserOp_simulate (unsafeManager (alwaysValid r) now) op None
   = Inr (r, \<lparr>addresses = [], hash = []\<rparr>, [])"
  by (simp add: validateUserOp_simulate_def unsafeManager_def alwaysValid_def)

lemma validateUserOp_okManager:
  assumes "verificationGasLimit op = 100000" and "preVerificationGas op = 50000"
  shows "validateUserOp okManager op (Some \<lparr>addresses = [], hash = []\<rparr>) False
   = Inr \<lparr>returnInfo = \<lparr>preOpGas = 60000, ri_prefund = 0, sigFailed = False,
                          validAfter = 0, validUntil = None\<rparr>,
           senderInfo = stakeOf (sender op), factoryInfo = None, paymasterInfo = None,
           aggregatorInfo = None,
           res_referencedContracts = \<lparr>addresses = [], hash = []\<rparr>, res_storageMap = []\<rparr>"
  using assms
  by (simp add: validateUserOp_def validateUserOp_simulate_def okManager_def unsafeManager_def
        validateUserOp_checks_def simResult_def andThen_def requireCond_def)

section \<open>Validation manager: properties\<close>

text \<open>
  C3, as stated, fails on the code. The code treats only a missing (\<^verbatim>\<open>null\<close>)
  \<^verbatim>\<open>validUntil\<close> as having no expiry: with the clock at 1000, a validation result with
  \<open>validAfter = 0\<close> and \<open>validUntil = 0\<close> is refused with \<^verbatim>\<open>NotInTimeRange\<close>
  (``already expired''), although the time range of the claim is not violated.
\<close>

theorem validUntil_zero_rejected:
  "validateUserOp (unsafeManager (alwaysValid (simResult ''0xa1'' 0 (Some 0) 60000)) 1000)
     (plainOp ''0xa1'' 100 100) None True = Inl (RpcError NotInTimeRange)
   \<and> \<not> spec_timeRangeViolated 1000 0 0"
  by (simp add: validateUserOp_def simulate_unsafeManager clock_unsafeManager
        validateUserOp_checks_def simResult_def andThen_def requireCond_def
        spec_timeRangeViolated_def)

text \<open>
  C3, amended. Once the code-hash check and the simulation have succeeded and the signature
  is valid, \<^verbatim>\<open>validateUserOp\<close> raises \<^verbatim>\<open>NotInTimeRange\<close> if and only if
  \<open>validAfter > now\<close>, or \<^verbatim>\<open>validUntil\<close> is present and \<open>validUntil \<le> now + 30\<close>. So a
  \<^verbatim>\<open>validUntil\<close> of \<open>now + 29\<close> is refused, and so are \<open>now + 30\<close> and \<open>0\<close>; only a
  missing \<^verbatim>\<open>validUntil\<close> never expires.
\<close>

theorem validateUserOp_NotInTimeRange_iff:
  assumes "validateUserOp_simulate vm op prev = Inr (res, codeHashes, sm)"
    and "\<not> sigFailed (returnInfo res)"
  shows "validateUserOp vm op prev cs = Inl (RpcError NotInTimeRange) \<longleftrightarrow>
         (validAfter (returnInfo res) > clock vm op \<or>
          (\<exists>u. validUntil (returnInfo res) = Some u \<and> u \<le> clock vm op + 30))"
  using assms
  by (auto simp: validateUserOp_def validateUserOp_checks_def Let_def andThen_def requireCond_def
        VALID_UNTIL_FUTURE_SECONDS_def split: option.splits if_splits)

theorem validateUserOp_NotInTimeRange_iff_witness:
  "validateUserOp (unsafeManager (alwaysValid (simResult ''0xa1'' 0 (Some 1030) 60000)) 1000)
     (plainOp ''0xa1'' 100 100) None True = Inl (RpcError NotInTimeRange)
   \<and> validateUserOp (unsafeManager (alwaysValid (simResult ''0xa1'' 0 (Some 1031) 60000)) 1000)
     (plainOp ''0xa1'' 100 100) None True \<noteq> Inl (RpcError NotInTimeRange)"
  using
    validateUserOp_NotInTimeRange_iff[OF simulate_unsafeManager,
      of "simResult ''0xa1'' 0 (Some 1030) 60000" 1000 "plainOp ''0xa1'' 100 100" True]
    validateUserOp_NotInTimeRange_iff[OF simulate_unsafeManager,
      of "simResult ''0xa1'' 0 (Some 1031) 60000" 1000 "plainOp ''0xa1'' 100 100" True]
  by (simp add: simResult_def clock_unsafeManager)

section \<open>Failure attribution: properties\<close>

lemma crashedHandleOps_entry:
  "entries (crashedHandleOps (Some p) rm) (toLowerCase p) =
     Some (case entries rm (toLowerCase p) of
             None \<Rightarrow> \<lparr>address = toLowerCase p, opsSeen = 10000, opsIncluded = 0, status = None\<rparr>
           | Some old \<Rightarrow> old\<lparr>opsSeen := opsSeen old + 10000, opsIncluded := 0\<rparr>)"
  by (simp add: crashedHandleOps_def getOrCreate_def modifyEntry_def Let_def split: option.splits)

lemma crashedHandleOps_other:
  "k \<noteq> toLowerCase p \<Longrightarrow> entries (crashedHandleOps (Some p) rm) k = entries rm k"
  by (simp add: crashedHandleOps_def getOrCreate_def modifyEntry_def Let_def split: option.splits)

text \<open>
  C7. When \<^verbatim>\<open>handleOps\<close> fails with \<^verbatim>\<open>FailedOp(opIndex, reason)\<close>, the reason starts
  with \<^verbatim>\<open>AA3\<close> and the failing operation has a paymaster \<open>p\<close>, \<^verbatim>\<open>sendBundle\<close> returns
  nothing, leaves the mempool as it is (the operation is not removed) and changes the
  reputation by \<^verbatim>\<open>crashedHandleOps(p)\<close> only: the entry of \<open>p\<close> (created with zero
  counters when absent) gets \<^verbatim>\<open>opsSeen + 10000\<close> and \<^verbatim>\<open>opsIncluded = 0\<close>, every other
  entry is untouched.
\<close>

theorem sendBundle_AA3_blames_paymaster:
  assumes "parsedError e = Some (i, reason)"
    and "i < length userOps"
    and "startsWith reason ''AA3''"
    and "getAddr (Some (paymasterAndData (userOps ! i))) = Some p"
  shows "sendBundle rm mm userOps (Threw e) = (Inr None, crashedHandleOps (Some p) rm, mm)
       \<and> entries (crashedHandleOps (Some p) rm) (toLowerCase p) =
           Some (case entries rm (toLowerCase p) of
                   None \<Rightarrow> \<lparr>address = toLowerCase p, opsSeen = 10000, opsIncluded = 0,
                              status = None\<rparr>
                 | Some old \<Rightarrow> old\<lparr>opsSeen := opsSeen old + 10000, opsIncluded := 0\<rparr>)
       \<and> (\<forall>k. k \<noteq> toLowerCase p \<longrightarrow> entries (crashedHandleOps (Some p) rm) k = entries rm k)"
  using assms
  by (simp add: sendBundle_def Let_def crashedHandleOps_entry crashedHandleOps_other)

theorem sendBundle_AA3_blames_paymaster_witness:
  "sendBundle
     (freshReputation\<lparr>entries := [paymasterP \<mapsto>
        \<lparr>address = paymasterP, opsSeen = 7, opsIncluded = 3, status = None\<rparr>]\<rparr>)
     twoOps [sponsoredOp ''0xa1'']
     (Threw \<lparr>parsedError = Some (0, ''AA33 reverted''), errorCode = None\<rparr>)
   = (Inr None,
      crashedHandleOps (Some paymasterP)
        (freshReputation\<lparr>entries := [paymasterP \<mapsto>
           \<lparr>address = paymasterP, opsSeen = 7, opsIncluded = 3, status = None\<rparr>]\<rparr>),
      twoOps)
   \<and> entries (crashedHandleOps (Some paymasterP)
        (freshReputation\<lparr>entries := [paymasterP \<mapsto>
           \<lparr>address = paymasterP, opsSeen = 7, opsIncluded = 3, status = None\<rparr>]\<rparr>)) paymasterP
     = Some \<lparr>address = paymasterP, opsSeen = 10007, opsIncluded = 0, status = None\<rparr>"
  using sendBundle_AA3_blames_paymaster[where
      e = "\<lparr>parsedError = Some (0, ''AA33 reverted''), errorCode = None\<rparr>"
      and i = 0 and reason = "''AA33 reverted''" and userOps = "[sponsoredOp ''0xa1'']"
      and p = paymasterP and mm = twoOps
      and rm = "freshReputation\<lparr>entries := [paymasterP \<mapsto>
        \<lparr>address = paymasterP, opsSeen = 7, opsIncluded = 3, status = None\<rparr>]\<rparr>"]
  by (simp add: startsWith_def getAddr_paymasterP toLowerCase_paymasterP)

text \<open>
  C10. \<^verbatim>\<open>updateSeenStatus\<close> and \<^verbatim>\<open>crashedHandleOps\<close> with a \<^verbatim>\<open>null\<close> or
  \<^verbatim>\<open>undefined\<close> address leave the reputation manager as it is. In particular, when a
  \<^verbatim>\<open>FailedOp\<close> with an \<^verbatim>\<open>AA3\<close> reason is attributed to an operation whose
  \<^verbatim>\<open>paymasterAndData\<close> is too short to hold an address (such as the empty \<^verbatim>\<open>0x\<close>), or one
  with an \<^verbatim>\<open>AA1\<close> reason to an operation whose \<^verbatim>\<open>initCode\<close> is, \<^verbatim>\<open>sendBundle\<close>
  changes neither the reputation manager nor the mempool.
\<close>

theorem null_address_is_noop:
  "updateSeenStatus None rm = rm \<and> crashedHandleOps None rm = rm \<and>
   (parsedError e = Some (i, reason) \<and> i < length userOps \<and>
      ((startsWith reason ''AA3'' \<and> length (paymasterAndData (userOps ! i)) < 42) \<or>
       (startsWith reason ''AA1'' \<and> length (initCode (userOps ! i)) < 42))
    \<longrightarrow> sendBundle rm mm userOps (Threw e) = (Inr None, rm, mm))"
  by (auto simp: updateSeenStatus_def crashedHandleOps_def sendBundle_def Let_def getAddr_short
        startsWith_def)

theorem null_address_is_noop_witness:
  "sendBundle freshReputation twoOps [plainOp ''0xa1'' 100 100]
     (Threw \<lparr>parsedError = Some (0, ''AA31 paymaster deposit too low''), errorCode = None\<rparr>)
   = (Inr None, freshReputation, twoOps)
   \<and> sendBundle freshReputation twoOps [plainOp ''0xa1'' 100 100]
     (Threw \<lparr>parsedError = Some (0, ''AA13 initCode failed or OOG''), errorCode = None\<rparr>)
   = (Inr None, freshReputation, twoOps)"
  using
    null_address_is_noop[where
      e = "\<lparr>parsedError = Some (0, ''AA31 paymaster deposit too low''), errorCode = None\<rparr>"
      and i = 0 and reason = "''AA31 paymaster deposit too low''"
      and userOps = "[plainOp ''0xa1'' 100 100]" and rm = freshReputation and mm = twoOps]
    null_address_is_noop[where
      e = "\<lparr>parsedError = Some (0, ''AA13 initCode failed or OOG''), errorCode = None\<rparr>"
      and i = 0 and reason = "''AA13 initCode failed or OOG''"
      and userOps = "[plainOp ''0xa1'' 100 100]" and rm = freshReputation and mm = twoOps]
  by (simp add: startsWith_def)


section \<open>Bundle manager: properties\<close>

lemma createBundle_admit_fields:
  "bundleOps (createBundle_admit bm st entry r g) = bundleOps st @ [userOp entry]"
  "totalGas (createBundle_admit bm st entry r g) = g"
  "senders (createBundle_admit bm st entry r g) = insert (sender (userOp entry)) (senders st)"
  "pool (createBundle_admit bm st entry r g) = pool st"
  by (simp_all add: createBundle_admit_def Let_def split: option.splits)




lemma createBundle_loop_append:
  "createBundle_loop bm vm rm ks (xs @ ys) st =
     (case createBundle_loop bm vm rm ks xs st of
        Break s \<Rightarrow> Break s
      | Throw e s \<Rightarrow> Throw e s
      | Continue s \<Rightarrow> createBundle_loop bm vm rm ks ys s)"
  by (induction xs arbitrary: st) (auto split: LoopStep.splits)


lemma createBundle_result:
  "getSortedForInclusion mm = Inr es \<Longrightarrow>
   createBundle_loop bm vm rm (getKnownSenders mm) es (initialBundleState mm) = res \<Longrightarrow>
   createBundle bm vm rm mm =
     (case res of
        Throw e st \<Rightarrow> (Inl e, pool st)
      | Continue st \<Rightarrow> (Inr (bundleOps st, storageMap st), pool st)
      | Break st \<Rightarrow> (Inr (bundleOps st, storageMap st), pool st))"
  by (auto simp: createBundle_def Let_def split: LoopStep.splits)










text \<open>The build loop on the concrete inputs.\<close>

lemma bigNumberFrom_plainBundleManager:
  "- (2 ^ 53 - 1) < g \<Longrightarrow> g < 2 ^ 53 - 1 \<Longrightarrow>
   bigNumberFrom (maxBundleGas (plainBundleManager g)) = Inr g"
  by (simp add: bigNumberFrom_def plainBundleManager_def)

lemma validateUserOp_okResult:
  assumes "verificationGasLimit op = 100000" and "preVerificationGas op = 50000"
  shows "validateUserOp okManager op (Some \<lparr>addresses = [], hash = []\<rparr>) False
         = Inr (okResult (sender op))"
  using assms by (simp add: validateUserOp_okManager okResult_def)

lemma okResult_fields [simp]:
  "preOpGas (returnInfo (okResult s)) = 60000"
  "ri_prefund (returnInfo (okResult s)) = 0"
  "res_storageMap (okResult s) = []"
  by (simp_all add: okResult_def)


lemma passesGuards_sponsored:
  "passesGuards freshReputation okManager ks (entryOf (sponsoredOp s) h) (okResult s)"
  by (simp add: passesGuards_def getStatus_fresh validateUserOp_okResult)


lemma step_plain:
  assumes "s \<notin> S" and "int T + 60100 \<le> g" and "- (2 ^ 53 - 1) < g" and "g < 2 ^ 53 - 1"
  shows "createBundle_step (plainBundleManager g) okManager freshReputation ks
           \<lparr>bundleOps = B, paymasterDeposit = D, stakedEntityCount = C, senders = S,
            storageMap = M, totalGas = T, pool = P\<rparr>
           (entryOf (plainOp s f p) h)
         = Continue \<lparr>bundleOps = B @ [plainOp s f p], paymasterDeposit = D, stakedEntityCount = C,
                     senders = insert s S, storageMap = M, totalGas = T + 60100, pool = P\<rparr>"
  using assms
  by (simp add: createBundle_step_def getAddr_0x getStatus_fresh validateUserOp_okResult
        createBundle_admit_def bigNumberFrom_plainBundleManager Let_def)
     (simp add: plainBundleManager_def)


lemma step_sponsored:
  assumes "s \<notin> S" and "int T + 60100 \<le> g" and "- (2 ^ 53 - 1) < g" and "g < 2 ^ 53 - 1"
  shows "createBundle_step (plainBundleManager g) okManager freshReputation ks
           \<lparr>bundleOps = B, paymasterDeposit = D, stakedEntityCount = C, senders = S,
            storageMap = M, totalGas = T, pool = P\<rparr>
           (entryOf (sponsoredOp s) h)
         = Continue \<lparr>bundleOps = B @ [sponsoredOp s],
                     paymasterDeposit =
                       D(paymasterP \<mapsto> (case D paymasterP of None \<Rightarrow> 1000 | Some d \<Rightarrow> d)),
                     stakedEntityCount = C(paymasterP \<mapsto> nullish (C paymasterP) 0 + 1),
                     senders = insert s S, storageMap = M, totalGas = T + 60100, pool = P\<rparr>"
  using assms
  by (simp add: createBundle_step_def getAddr_0x getAddr_paymasterP getStatus_fresh
        validateUserOp_okResult createBundle_admit_def bigNumberFrom_plainBundleManager
        Let_def nullish_def)
     (simp add: plainBundleManager_def split: option.splits)


lemma getSortedForInclusion_sixSponsored:
  "getSortedForInclusion sixSponsored = Inr (mempool sixSponsored)"
  by (simp add: getSortedForInclusion_def sixSponsored_def toNumber_def)

lemma five_Suc: "Suc (Suc (Suc (Suc (Suc 0)))) = 5"
  by simp

lemma loop_sixSponsored_five:
  "createBundle_loop (plainBundleManager 1000000) okManager freshReputation ks
     (take 5 (mempool sixSponsored)) (initialBundleState sixSponsored)
   = Continue \<lparr>bundleOps = [sponsoredOp ''0xs1'', sponsoredOp ''0xs2'', sponsoredOp ''0xs3'',
                             sponsoredOp ''0xs4'', sponsoredOp ''0xs5''],
               paymasterDeposit = [paymasterP \<mapsto> 1000],
               stakedEntityCount = [paymasterP \<mapsto> 5],
               senders = {''0xs5'', ''0xs4'', ''0xs3'', ''0xs2'', ''0xs1''},
               storageMap = [], totalGas = 300500, pool = sixSponsored\<rparr>"
  by (simp add: initialBundleState_def step_sponsored nullish_def)
     (simp add: sixSponsored_def step_sponsored nullish_def five_Suc)

lemma loop_twoOps_first:
  assumes "60100 \<le> g" and "g < 2 ^ 53 - 1"
  shows "createBundle_loop (plainBundleManager g) okManager freshReputation ks
     [entryOf (plainOp ''0xa1'' 100 100) ''0xh1''] (initialBundleState twoOps)
   = Continue \<lparr>bundleOps = [plainOp ''0xa1'' 100 100], paymasterDeposit = Map.empty,
               stakedEntityCount = Map.empty, senders = {''0xa1''}, storageMap = [],
               totalGas = 60100, pool = twoOps\<rparr>"
  using assms by (simp add: initialBundleState_def step_plain)

lemma getStatus_throttled:
  "getStatus throttledReputation (Some paymasterP) = THROTTLED"
  "getStatus throttledReputation None = OK"
  by (simp_all add: getStatus_def throttledReputation_def freshReputation_def
        toLowerCase_paymasterP BundlerReputationParams_def)

text \<open>
  C4, as stated, fails on the code. The claim has an entry skipped when its paymaster
  already appears more than 4 times in \<^verbatim>\<open>stakedEntityCount\<close>. In the test
  \<^verbatim>\<open>paymasterStatus === THROTTLED ?? (count > 4)\<close> the left operand is a boolean, never
  \<^verbatim>\<open>null\<close>, so the count is never looked at. Six operations of six senders share a
  paymaster of status OK: when the sixth is examined the paymaster is counted 5 times, the
  test of the claim says skip, and the sixth is admitted; the bundle has all six.
\<close>

theorem createBundle_admits_sixth_of_paymaster:
  "spec_entitySkipped (getStatus freshReputation (Some paymasterP)) 5
   \<and> stakedEntityCount
       (stateOf (createBundle_loop (plainBundleManager 1000000) okManager freshReputation
          (getKnownSenders sixSponsored) (take 5 (mempool sixSponsored))
          (initialBundleState sixSponsored))) paymasterP = Some 5
   \<and> createBundle (plainBundleManager 1000000) okManager freshReputation sixSponsored
     = (Inr ([sponsoredOp ''0xs1'', sponsoredOp ''0xs2'', sponsoredOp ''0xs3'',
              sponsoredOp ''0xs4'', sponsoredOp ''0xs5'', sponsoredOp ''0xs6''], []), sixSponsored)"
proof -
  have six: "mempool sixSponsored
             = take 5 (mempool sixSponsored) @ [entryOf (sponsoredOp ''0xs6'') ''0xh6'']"
    by (simp add: sixSponsored_def)
  have "createBundle_loop (plainBundleManager 1000000) okManager freshReputation
          (getKnownSenders sixSponsored) (mempool sixSponsored) (initialBundleState sixSponsored)
        = Continue \<lparr>bundleOps = [sponsoredOp ''0xs1'', sponsoredOp ''0xs2'', sponsoredOp ''0xs3'',
                             sponsoredOp ''0xs4'', sponsoredOp ''0xs5'', sponsoredOp ''0xs6''],
               paymasterDeposit = [paymasterP \<mapsto> 1000],
               stakedEntityCount = [paymasterP \<mapsto> 6],
               senders = {''0xs6'', ''0xs5'', ''0xs4'', ''0xs3'', ''0xs2'', ''0xs1''},
               storageMap = [], totalGas = 360600, pool = sixSponsored\<rparr>"
    by (subst six)
       (simp add: createBundle_loop_append loop_sixSponsored_five step_sponsored nullish_def)
  then show ?thesis
    by (simp add: createBundle_def getSortedForInclusion_sixSponsored loop_sixSponsored_five
          spec_entitySkipped_def)
qed

text \<open>
  C4, amended. In every pass of the build loop, an entry whose paymaster and factory are
  not banned is skipped, leaving bundle and mempool as they are, when its paymaster is
  non-null and throttled, and likewise when its factory is. The counts in
  \<^verbatim>\<open>stakedEntityCount\<close> have no part in it: whatever they are, the pass admits the same
  operations and removes the same entries.
\<close>

theorem throttled_entity_skipped:
  "(getStatus rm (getAddr (Some (paymasterAndData (userOp entry)))) \<noteq> BANNED \<and>
    getStatus rm (getAddr (Some (initCode (userOp entry)))) \<noteq> BANNED \<and>
    ((getAddr (Some (paymasterAndData (userOp entry))) \<noteq> None \<and>
      getStatus rm (getAddr (Some (paymasterAndData (userOp entry)))) = THROTTLED) \<or>
     (getAddr (Some (initCode (userOp entry))) \<noteq> None \<and>
      getStatus rm (getAddr (Some (initCode (userOp entry)))) = THROTTLED))
    \<longrightarrow> createBundle_step bm vm rm ks st entry = Continue st)
   \<and> bundleOps (stateOf (createBundle_step bm vm rm ks (st\<lparr>stakedEntityCount := C\<rparr>) entry))
       = bundleOps (stateOf (createBundle_step bm vm rm ks st entry))
   \<and> pool (stateOf (createBundle_step bm vm rm ks (st\<lparr>stakedEntityCount := C\<rparr>) entry))
       = pool (stateOf (createBundle_step bm vm rm ks st entry))"
proof (intro conjI impI)
  assume "getStatus rm (getAddr (Some (paymasterAndData (userOp entry)))) \<noteq> BANNED \<and>
    getStatus rm (getAddr (Some (initCode (userOp entry)))) \<noteq> BANNED \<and>
    ((getAddr (Some (paymasterAndData (userOp entry))) \<noteq> None \<and>
      getStatus rm (getAddr (Some (paymasterAndData (userOp entry)))) = THROTTLED) \<or>
     (getAddr (Some (initCode (userOp entry))) \<noteq> None \<and>
      getStatus rm (getAddr (Some (initCode (userOp entry)))) = THROTTLED))"
  then show "createBundle_step bm vm rm ks st entry = Continue st"
    by (auto simp: createBundle_step_def Let_def nullish_def)
next
  show "bundleOps (stateOf (createBundle_step bm vm rm ks (st\<lparr>stakedEntityCount := C\<rparr>) entry))
       = bundleOps (stateOf (createBundle_step bm vm rm ks st entry))"
    by (auto simp: createBundle_step_def Let_def nullish_def createBundle_admit_fields
          split: sum.splits option.splits)
next
  show "pool (stateOf (createBundle_step bm vm rm ks (st\<lparr>stakedEntityCount := C\<rparr>) entry))
       = pool (stateOf (createBundle_step bm vm rm ks st entry))"
    by (auto simp: createBundle_step_def Let_def nullish_def createBundle_admit_fields
          split: sum.splits option.splits)
qed

lemma deployedOp_fields [simp]:
  "sender (deployedOp s) = s"
  "initCode (deployedOp s) = paymasterP"
  "paymasterAndData (deployedOp s) = ''0x''"
  by (simp_all add: deployedOp_def plainOp_def)

theorem throttled_entity_skipped_witness:
  "createBundle_step (plainBundleManager 1000000) okManager throttledReputation
     (getKnownSenders sixSponsored) (initialBundleState sixSponsored)
     (entryOf (sponsoredOp ''0xs1'') ''0xh1'')
   = Continue (initialBundleState sixSponsored)
   \<and> createBundle_step (plainBundleManager 1000000) okManager throttledReputation
     (getKnownSenders sixSponsored) (initialBundleState sixSponsored)
     (entryOf (deployedOp ''0xs1'') ''0xh1'')
   = Continue (initialBundleState sixSponsored)"
  using
    throttled_entity_skipped[where rm = throttledReputation
      and entry = "entryOf (sponsoredOp ''0xs1'') ''0xh1''"
      and bm = "plainBundleManager 1000000" and vm = okManager
      and ks = "getKnownSenders sixSponsored" and st = "initialBundleState sixSponsored",
      THEN conjunct1]
    throttled_entity_skipped[where rm = throttledReputation
      and entry = "entryOf (deployedOp ''0xs1'') ''0xh1''"
      and bm = "plainBundleManager 1000000" and vm = okManager
      and ks = "getKnownSenders sixSponsored" and st = "initialBundleState sixSponsored",
      THEN conjunct1]
  by (simp add: getAddr_paymasterP getAddr_0x getStatus_throttled)







end
